theory Spec2Isabelle
  imports Complex_Main
begin

section \<open>Numbers\<close>

text \<open>
  The program is JavaScript; its numbers are IEEE doubles: the finite doubles, NaN and
  the two infinities. A number is a real extended by NaN and the infinities; the doubles
  are the numbers that rounding returns (\<open>toDouble\<close> below). \<open>parseFloat\<close> yields NaN
  on text that is no number, \<open>0 / 0\<close> is NaN, and a missing numeric field reads as
  \<open>undefined\<close>, which behaves as NaN in every comparison and arithmetic operation below.
  Signed zeros are identified.
\<close>

datatype number = NaN | NegInf | Fin real | PosInf

fun isNaN :: "number \<Rightarrow> bool" where
  "isNaN NaN = True"
| "isNaN _ = False"

text \<open>
  The operators on two numbers, before rounding: the exact result on finite numbers,
  and the result that IEEE arithmetic fixes on NaN and the infinities.
\<close>

fun num_add :: "number \<Rightarrow> number \<Rightarrow> number" where
  "num_add NaN _ = NaN"
| "num_add _ NaN = NaN"
| "num_add PosInf NegInf = NaN"
| "num_add NegInf PosInf = NaN"
| "num_add PosInf _ = PosInf"
| "num_add _ PosInf = PosInf"
| "num_add NegInf _ = NegInf"
| "num_add _ NegInf = NegInf"
| "num_add (Fin a) (Fin b) = Fin (a + b)"

fun num_neg :: "number \<Rightarrow> number" where
  "num_neg NaN = NaN"
| "num_neg NegInf = PosInf"
| "num_neg (Fin a) = Fin (- a)"
| "num_neg PosInf = NegInf"

definition num_sub :: "number \<Rightarrow> number \<Rightarrow> number" where
  "num_sub a b = num_add a (num_neg b)"

fun num_mul :: "number \<Rightarrow> number \<Rightarrow> number" where
  "num_mul NaN _ = NaN"
| "num_mul _ NaN = NaN"
| "num_mul (Fin a) (Fin b) = Fin (a * b)"
| "num_mul (Fin a) PosInf = (if a = 0 then NaN else if 0 < a then PosInf else NegInf)"
| "num_mul (Fin a) NegInf = (if a = 0 then NaN else if 0 < a then NegInf else PosInf)"
| "num_mul PosInf (Fin b) = (if b = 0 then NaN else if 0 < b then PosInf else NegInf)"
| "num_mul NegInf (Fin b) = (if b = 0 then NaN else if 0 < b then NegInf else PosInf)"
| "num_mul PosInf PosInf = PosInf"
| "num_mul NegInf NegInf = PosInf"
| "num_mul PosInf NegInf = NegInf"
| "num_mul NegInf PosInf = NegInf"

text \<open>The operator \<open>/\<close>: a zero divisor gives NaN or an infinity, never an exception.\<close>

fun num_div :: "number \<Rightarrow> number \<Rightarrow> number" where
  "num_div NaN _ = NaN"
| "num_div _ NaN = NaN"
| "num_div (Fin a) (Fin b) =
     (if b \<noteq> 0 then Fin (a / b)
      else if a = 0 then NaN
      else if 0 < a then PosInf else NegInf)"
| "num_div (Fin a) _ = Fin 0"
| "num_div PosInf (Fin b) = (if 0 \<le> b then PosInf else NegInf)"
| "num_div NegInf (Fin b) = (if 0 \<le> b then NegInf else PosInf)"
| "num_div _ _ = NaN"

text \<open>
  The comparisons \<open>>\<close>, \<open>>=\<close> and \<open><=\<close>: false as soon as one side is NaN. They
  are exact on doubles.
\<close>

fun num_gt :: "number \<Rightarrow> number \<Rightarrow> bool" where
  "num_gt NaN _ = False"
| "num_gt _ NaN = False"
| "num_gt (Fin a) (Fin b) = (b < a)"
| "num_gt PosInf PosInf = False"
| "num_gt PosInf _ = True"
| "num_gt _ PosInf = False"
| "num_gt NegInf _ = False"
| "num_gt _ NegInf = True"

fun num_ge :: "number \<Rightarrow> number \<Rightarrow> bool" where
  "num_ge NaN _ = False"
| "num_ge _ NaN = False"
| "num_ge a b = (a = b \<or> num_gt a b)"

definition num_le :: "number \<Rightarrow> number \<Rightarrow> bool" where
  "num_le a b = num_ge b a"

text \<open>\<open>Math.min\<close> of two numbers: NaN as soon as one argument is NaN.\<close>

fun num_min :: "number \<Rightarrow> number \<Rightarrow> number" where
  "num_min NaN _ = NaN"
| "num_min _ NaN = NaN"
| "num_min a b = (if num_gt a b then b else a)"

subsection \<open>Rounding to a double\<close>

text \<open>
  The double nearest to a real, ties to the even significand. A double is a multiple of
  a power of two, its spacing: \<open>2^(e - 52)\<close> for a magnitude in \<open>[2^e, 2^(e + 1))\<close>, and
  \<open>2^(-1074)\<close> below \<open>2^(-1022)\<close>. A magnitude that rounds to \<open>2^1024\<close> or more
  becomes an infinity.
\<close>

definition pow2 :: "int \<Rightarrow> real" where
  "pow2 j = 2 powr of_int j"

definition roundHalfEven :: "real \<Rightarrow> int" where
  "roundHalfEven y =
     (let f = \<lfloor>y\<rfloor>; r = y - of_int f
      in if r < 1 / 2 then f
         else if 1 / 2 < r then f + 1
         else if even f then f else f + 1)"

definition expo :: "real \<Rightarrow> int" where
  "expo a = max \<lfloor>log 2 a\<rfloor> (- 1022)"

definition spacing :: "real \<Rightarrow> real" where
  "spacing a = pow2 (expo a - 52)"

definition nearest :: "real \<Rightarrow> real" where
  "nearest a = of_int (roundHalfEven (a / spacing a)) * spacing a"

definition overflowThreshold :: real where
  "overflowThreshold = 2 ^ 1024"

definition toDouble :: "real \<Rightarrow> number" where
  "toDouble x =
     (if x = 0 then Fin 0
      else
        (let v = nearest \<bar>x\<bar>
         in if overflowThreshold \<le> v then (if 0 < x then PosInf else NegInf)
            else Fin (if 0 < x then v else - v)))"

text \<open>The result of an operation: a finite exact result is rounded.\<close>

fun rounded :: "number \<Rightarrow> number" where
  "rounded (Fin v) = toDouble v"
| "rounded x = x"

text \<open>The numbers that are doubles: NaN, the infinities, and the reals that rounding keeps.\<close>

fun isDouble :: "number \<Rightarrow> bool" where
  "isDouble (Fin v) = (toDouble v = Fin v)"
| "isDouble _ = True"

subsection \<open>The arithmetic of utils.js\<close>

text \<open>
  The operators \<open>+\<close>, \<open>-\<close>, \<open>*\<close> and \<open>/\<close> on doubles round the exact result.
  \<open>Math.sqrt\<close>, \<open>Math.sin\<close>, \<open>Math.cos\<close> and \<open>Math.atan2\<close> are taken as the
  correctly rounded functions; an engine may differ from them in the last bit of a
  result. What is proved below of the path sampler uses of them only the sign of their
  results and that NaN goes through them.
\<close>

definition dbl_add :: "number \<Rightarrow> number \<Rightarrow> number" where
  "dbl_add a b = rounded (num_add a b)"

definition dbl_sub :: "number \<Rightarrow> number \<Rightarrow> number" where
  "dbl_sub a b = rounded (num_sub a b)"

definition dbl_mul :: "number \<Rightarrow> number \<Rightarrow> number" where
  "dbl_mul a b = rounded (num_mul a b)"

definition dbl_div :: "number \<Rightarrow> number \<Rightarrow> number" where
  "dbl_div a b = rounded (num_div a b)"

text \<open>\<open>Math.PI\<close>, the double nearest to \<open>\<pi>\<close>.\<close>

definition MathPI :: number where
  "MathPI = Fin (884279719003555 / 281474976710656)"

fun dbl_sqrt :: "number \<Rightarrow> number" where
  "dbl_sqrt (Fin v) = (if v < 0 then NaN else toDouble (sqrt v))"
| "dbl_sqrt PosInf = PosInf"
| "dbl_sqrt _ = NaN"

fun dbl_sin :: "number \<Rightarrow> number" where
  "dbl_sin (Fin v) = toDouble (sin v)"
| "dbl_sin _ = NaN"

fun dbl_cos :: "number \<Rightarrow> number" where
  "dbl_cos (Fin v) = toDouble (cos v)"
| "dbl_cos _ = NaN"

text \<open>The angle of the point \<open>(x, y)\<close>, in \<open>(-\<pi>, \<pi>]\<close>.\<close>

definition atan2 :: "real \<Rightarrow> real \<Rightarrow> real" where
  "atan2 y x =
     (if 0 < x then arctan (y / x)
      else if x < 0 then (if 0 \<le> y then arctan (y / x) + pi else arctan (y / x) - pi)
      else if 0 < y then pi / 2
      else if y < 0 then - (pi / 2)
      else 0)"

fun dbl_atan2 :: "number \<Rightarrow> number \<Rightarrow> number" where
  "dbl_atan2 NaN _ = NaN"
| "dbl_atan2 _ NaN = NaN"
| "dbl_atan2 (Fin y) (Fin x) = toDouble (atan2 y x)"
| "dbl_atan2 (Fin y) PosInf = Fin 0"
| "dbl_atan2 (Fin y) NegInf = (if 0 \<le> y then toDouble pi else toDouble (- pi))"
| "dbl_atan2 PosInf (Fin x) = toDouble (pi / 2)"
| "dbl_atan2 PosInf PosInf = toDouble (pi / 4)"
| "dbl_atan2 PosInf NegInf = toDouble (3 * pi / 4)"
| "dbl_atan2 NegInf (Fin x) = toDouble (- (pi / 2))"
| "dbl_atan2 NegInf PosInf = toDouble (- (pi / 4))"
| "dbl_atan2 NegInf NegInf = toDouble (- (3 * pi / 4))"

subsection \<open>parseFloat\<close>

text \<open>
  \<open>parseFloat\<close> skips leading white space and reads the longest prefix that is a decimal
  literal: an optional sign, then \<open>Infinity\<close>, or digits with an optional fraction and
  an optional exponent; NaN when there is no such prefix. The result is the double
  nearest to the value of the literal. Strings are byte strings here, so only the ASCII
  white space characters are skipped.
\<close>

definition isWhiteSpace :: "char \<Rightarrow> bool" where
  "isWhiteSpace c = (c \<in> set [CHR '' '', CHR 0x09, CHR 0x0A, CHR 0x0B, CHR 0x0C, CHR 0x0D])"

definition isDigit :: "char \<Rightarrow> bool" where
  "isDigit c = (c \<in> set ''0123456789'')"

definition digitValue :: "char \<Rightarrow> nat" where
  "digitValue c = (of_char c :: nat) - 48"

definition digitsValue :: "string \<Rightarrow> nat" where
  "digitsValue ds = foldl (\<lambda>acc c. 10 * acc + digitValue c) 0 ds"

definition pow10 :: "int \<Rightarrow> real" where
  "pow10 e = (if 0 \<le> e then 10 ^ nat e else 1 / 10 ^ nat (- e))"

definition parseExponent :: "string \<Rightarrow> int" where
  "parseExponent s =
     (case s of
        [] \<Rightarrow> 0
      | c # r \<Rightarrow>
          if c = CHR ''e'' \<or> c = CHR ''E'' then
            (let sgn = (case r of c' # _ \<Rightarrow> if c' = CHR ''-'' then - 1 else 1 | [] \<Rightarrow> (1::int));
                 r' = (case r of c' # t \<Rightarrow> if c' = CHR ''-'' \<or> c' = CHR ''+'' then t else r | [] \<Rightarrow> r);
                 ds = takeWhile isDigit r'
             in if ds = [] then 0 else sgn * int (digitsValue ds))
          else 0)"

definition parseUnsigned :: "string \<Rightarrow> number" where
  "parseUnsigned s =
     (if take 8 s = ''Infinity'' then PosInf
      else
        (let ip = takeWhile isDigit s;
             r1 = dropWhile isDigit s;
             hasDot = (case r1 of c # _ \<Rightarrow> c = CHR ''.'' | [] \<Rightarrow> False);
             fp = (if hasDot then takeWhile isDigit (tl r1) else []);
             r2 = (if hasDot then dropWhile isDigit (tl r1) else r1)
         in if ip = [] \<and> fp = [] then NaN
            else toDouble (real (digitsValue (ip @ fp)) / 10 ^ length fp * pow10 (parseExponent r2))))"

definition parseFloat :: "string \<Rightarrow> number" where
  "parseFloat s =
     (let t = dropWhile isWhiteSpace s
      in case t of
           [] \<Rightarrow> NaN
         | c # r \<Rightarrow>
             if c = CHR ''-'' then num_neg (parseUnsigned r)
             else if c = CHR ''+'' then parseUnsigned r
             else parseUnsigned t)"

section \<open>Geodesic distance (utils.js)\<close>

record Point =
  lat :: real
  lng :: real

definition toRad :: "number \<Rightarrow> number" where
  "toRad x = dbl_div (dbl_mul x MathPI) (Fin 180)"

text \<open>
  \<open>haversineDistance\<close>, operation by operation, in the order in which JavaScript
  evaluates them. Nothing keeps \<open>a\<close> from rounding above 1, where \<open>Math.sqrt (1 - a)\<close>
  and with it the result is NaN.
\<close>

definition haversineDistance :: "Point \<Rightarrow> Point \<Rightarrow> number" where
  "haversineDistance coords1 coords2 =
     (let lat1 = Fin (lat coords1); lon1 = Fin (lng coords1);
          lat2 = Fin (lat coords2); lon2 = Fin (lng coords2);
          R = Fin 6371;
          dLat = toRad (dbl_sub lat2 lat1);
          dLatSin = dbl_sin (dbl_div dLat (Fin 2));
          dLon = toRad (dbl_sub lon2 lon1);
          dLonSin = dbl_sin (dbl_div dLon (Fin 2));
          a = dbl_add (dbl_mul dLatSin dLatSin)
                (dbl_mul (dbl_mul (dbl_mul (dbl_cos (toRad lat1)) (dbl_cos (toRad lat2))) dLonSin)
                   dLonSin);
          c = dbl_mul (Fin 2) (dbl_atan2 (dbl_sqrt a) (dbl_sqrt (dbl_sub (Fin 1) a)))
      in dbl_mul R c)"

section \<open>Path sampler (utils.js)\<close>

text \<open>
  The object \<open>{ lat, lng }\<close> that the sampler returns: a point of the path as it is, or
  a point whose coordinates the interpolation has computed.
\<close>

record Position =
  posLat :: number
  posLng :: number

definition positionOf :: "Point \<Rightarrow> Position" where
  "positionOf p = \<lparr>posLat = Fin (lat p), posLng = Fin (lng p)\<rparr>"

text \<open>
  The \<open>for\<close> loop of \<open>getPositionAlongPath\<close>, from segment \<open>i\<close> on: the list is
  \<open>path[i..]\<close>, \<open>covered\<close> the length of the segments before it. The loop ends
  at the last point, which is then returned.
\<close>

fun walkPath :: "number \<Rightarrow> number \<Rightarrow> Point list \<Rightarrow> Position option" where
  "walkPath covered distanceKm (start # end # rest) =
     (let segDist = haversineDistance start end
      in if num_ge (dbl_add covered segDist) distanceKm then
           (let remaining = dbl_sub distanceKm covered;
                ratio = dbl_div remaining segDist
            in Some \<lparr>posLat = dbl_add (Fin (lat start))
                                 (dbl_mul (dbl_sub (Fin (lat end)) (Fin (lat start))) ratio),
                      posLng = dbl_add (Fin (lng start))
                                 (dbl_mul (dbl_sub (Fin (lng end)) (Fin (lng start))) ratio)\<rparr>)
         else walkPath (dbl_add covered segDist) distanceKm (end # rest))"
| "walkPath covered distanceKm [p] = Some (positionOf p)"
| "walkPath covered distanceKm [] = None"

text \<open>The result \<open>null\<close> is \<open>None\<close>; a path that is \<open>null\<close> is the empty list.\<close>

definition getPositionAlongPath :: "Point list \<Rightarrow> number \<Rightarrow> Position option" where
  "getPositionAlongPath path distanceKm =
     (if path = [] then None
      else if num_le distanceKm (Fin 0) then Some (positionOf (path ! 0))
      else walkPath (Fin 0) distanceKm path)"

definition interpolatePosition :: "Point option \<Rightarrow> Point option \<Rightarrow> number \<Rightarrow> Position option" where
  "interpolatePosition start end progress =
     (case (start, end) of
        (Some s, Some e) \<Rightarrow>
          if num_le progress (Fin 0) then Some (positionOf s)
          else if num_ge progress (Fin 1) then Some (positionOf e)
          else Some \<lparr>posLat = dbl_add (Fin (lat s)) (dbl_mul (dbl_sub (Fin (lat e)) (Fin (lat s))) progress),
                     posLng = dbl_add (Fin (lng s)) (dbl_mul (dbl_sub (Fin (lng e)) (Fin (lng s))) progress)\<rparr>
      | _ \<Rightarrow> None)"

text \<open>
  The total length of a path as the loop adds it up: the lengths of the segments, added
  one by one from the first segment on, each sum rounded.
\<close>

fun sumSegments :: "number \<Rightarrow> Point list \<Rightarrow> number" where
  "sumSegments covered (a # b # rest) = sumSegments (dbl_add covered (haversineDistance a b)) (b # rest)"
| "sumSegments covered _ = covered"

definition pathLength :: "Point list \<Rightarrow> number" where
  "pathLength P = sumSegments (Fin 0) P"

text \<open>A number that is not negative: NaN, or a number that is at least 0.\<close>

definition notNegative :: "number \<Rightarrow> bool" where
  "notNegative x = (isNaN x \<or> num_le (Fin 0) x)"

section \<open>Route fetcher (utils.js)\<close>

text \<open>
  What the routing service answers to one request. \<open>Rejected msg\<close>: the request or the
  decoding of the body threw an error with message \<open>msg\<close> (no network, a body that
  is no JSON). \<open>Responded r\<close>: the body was the JSON object \<open>r\<close>. Of the body only
  the fields \<open>fetchRoute\<close> reads are kept: \<open>code\<close>, \<open>routes\<close> (\<open>None\<close> when absent
  or null), and of a route \<open>geometry.coordinates\<close>, a list of \<open>[longitude, latitude]\<close>
  pairs (\<open>None\<close> when absent), and \<open>distance\<close> in meters (NaN when absent).
\<close>

record OsrmRoute =
  geometry_coordinates :: "(real \<times> real) list option"
  distance_m :: number

record OsrmResponse =
  code :: string
  routes :: "OsrmRoute list option"

datatype FetchOutcome = Rejected string | Responded OsrmResponse

text \<open>
  The object \<open>fetchRoute\<close> returns: \<open>{ error }\<close> or \<open>{ coordinates, distance }\<close>.
\<close>

datatype RouteData = RouteError string | RouteOk "Point list" number

text \<open>
  The message of the TypeError that reading \<open>coordinates\<close> of an absent geometry throws.
  Its text depends on the engine; what matters below is that it is an error with a
  message, as every error thrown in the block is.
\<close>

definition typeErrorMessage :: string where
  "typeErrorMessage = ''Cannot read properties of undefined''"

text \<open>
  The body of the \<open>try\<close> block: \<open>Inl msg\<close> is an error with message \<open>msg\<close> thrown
  inside it, \<open>Inr\<close> the value it returns.
\<close>

definition fetchRouteTry :: "FetchOutcome \<Rightarrow> string + RouteData" where
  "fetchRouteTry outcome =
     (case outcome of
        Rejected msg \<Rightarrow> Inl msg
      | Responded data \<Rightarrow>
          if code data \<noteq> ''Ok'' \<or> routes data = None \<or> routes data = Some []
          then Inl ''No route found''
          else
            (let route = hd (the (routes data))
             in case geometry_coordinates route of
                  None \<Rightarrow> Inl typeErrorMessage
                | Some cs \<Rightarrow>
                    (let coordinates = map (\<lambda>coord. \<lparr>lat = snd coord, lng = fst coord\<rparr>) cs
                     in Inr (RouteOk coordinates (num_div (distance_m route) (Fin 1000))))))"

text \<open>
  \<open>fetchRoute\<close> with its \<open>catch\<close>: every error thrown in the block becomes an error
  object. The service is a parameter: the answer it gives to a request for the two
  end points.
\<close>

definition fetchRoute :: "(Point \<Rightarrow> Point \<Rightarrow> FetchOutcome) \<Rightarrow> Point \<Rightarrow> Point \<Rightarrow> RouteData" where
  "fetchRoute service start end =
     (case fetchRouteTry (service start end) of
        Inl message \<Rightarrow> RouteError message
      | Inr result \<Rightarrow> result)"

text \<open>
  The callers test \<open>routeData && !routeData.error\<close>: an error field that is absent or the
  empty string passes. The fields \<open>coordinates\<close> and \<open>distance\<close> of an error object are
  \<open>undefined\<close>, read here as the empty path and NaN.
\<close>

fun hasError :: "RouteData \<Rightarrow> bool" where
  "hasError (RouteError message) = (message \<noteq> [])"
| "hasError (RouteOk _ _) = False"

fun coordinatesOf :: "RouteData \<Rightarrow> Point list" where
  "coordinatesOf (RouteOk cs _) = cs"
| "coordinatesOf (RouteError _) = []"

fun distanceOf :: "RouteData \<Rightarrow> number" where
  "distanceOf (RouteOk _ d) = d"
| "distanceOf (RouteError _) = NaN"

section \<open>Progress state controller (App)\<close>

datatype AppPhase = SETUP | TRACKING | CELEBRATION

record Route =
  start :: "Point option"
  end' :: "Point option"
  path :: "Point list"
  distance :: number

record Progress =
  currentKm :: number
  totalKm :: number
  percentage :: number

text \<open>
  The state of the component that the handlers read and write. Each handler is run to
  its end before the next event: the two \<open>await\<close>s of a route are taken as one step with
  the service's answer. The sum and the quotient of \<open>addDistance\<close> and the division by
  1000 of \<open>fetchRoute\<close> are the exact ones: the rounding of these three results is left
  out.
\<close>

record App =
  appState :: AppPhase
  route :: Route
  progress :: Progress
  inputKm :: string
  isLoading :: bool
  showCelebration :: bool

definition defaultStart :: Point where
  "defaultStart = \<lparr>lat = 48.20967, lng = 13.48831\<rparr>"

definition defaultRoute :: Route where
  "defaultRoute = \<lparr>start = Some defaultStart, end' = None, path = [], distance = Fin 0\<rparr>"

definition defaultProgress :: Progress where
  "defaultProgress = \<lparr>currentKm = Fin 0, totalKm = Fin 0, percentage = Fin 0\<rparr>"

text \<open>The initial values of the \<open>useState\<close> calls.\<close>

definition initialApp :: App where
  "initialApp =
     \<lparr>appState = SETUP, route = defaultRoute, progress = defaultProgress,
      inputKm = [], isLoading = False, showCelebration = False\<rparr>"

text \<open>The effect that fetches the preview of the route once both points are set.\<close>

definition calculatePreview :: "(Point \<Rightarrow> Point \<Rightarrow> FetchOutcome) \<Rightarrow> App \<Rightarrow> App" where
  "calculatePreview service s =
     (case (start (route s), end' (route s)) of
        (Some st, Some en) \<Rightarrow>
          if appState s = SETUP \<and> path (route s) = [] \<and> \<not> isLoading s then
            (let routeData = fetchRoute service st en
             in if \<not> hasError routeData
                then s\<lparr>route := (route s)\<lparr>path := coordinatesOf routeData,
                                            distance := distanceOf routeData\<rparr>\<rparr>
                else s)
          else s
      | _ \<Rightarrow> s)"

definition handleMapClick :: "Point \<Rightarrow> App \<Rightarrow> App" where
  "handleMapClick latlng s =
     (if appState s \<noteq> SETUP then s
      else if start (route s) = None then s\<lparr>route := (route s)\<lparr>start := Some latlng\<rparr>\<rparr>
      else if end' (route s) = None then s\<lparr>route := (route s)\<lparr>end' := Some latlng\<rparr>\<rparr>
      else s)"

datatype MarkerType = StartMarker | EndMarker

definition handleMarkerClick :: "MarkerType \<Rightarrow> App \<Rightarrow> App" where
  "handleMarkerClick type s =
     (if appState s \<noteq> SETUP then s
      else
        (case type of
           StartMarker \<Rightarrow> s\<lparr>route := (route s)\<lparr>start := None, path := [], distance := Fin 0\<rparr>\<rparr>
         | EndMarker \<Rightarrow> s\<lparr>route := (route s)\<lparr>end' := None, path := [], distance := Fin 0\<rparr>\<rparr>))"

definition resetRoute :: "App \<Rightarrow> App" where
  "resetRoute s =
     s\<lparr>route := \<lparr>start = Some defaultStart, end' = None, path = [], distance = Fin 0\<rparr>,
       progress := \<lparr>currentKm = Fin 0, totalKm = Fin 0, percentage = Fin 0\<rparr>,
       inputKm := [],
       appState := SETUP,
       showCelebration := False\<rparr>"

text \<open>
  \<open>startJourney\<close>. The \<open>alert\<close> of the last fallback is shown to the user and changes
  no state.
\<close>

definition startJourney :: "(Point \<Rightarrow> Point \<Rightarrow> FetchOutcome) \<Rightarrow> App \<Rightarrow> App" where
  "startJourney service s =
     (case (start (route s), end' (route s)) of
        (Some st, Some en) \<Rightarrow>
          if num_gt (distance (route s)) (Fin 0) then
            s\<lparr>progress := \<lparr>currentKm = Fin 0, totalKm = distance (route s), percentage = Fin 0\<rparr>,
              appState := TRACKING\<rparr>
          else
            (let routeData = fetchRoute service st en
             in if \<not> hasError routeData then
                  s\<lparr>isLoading := False,
                    route := (route s)\<lparr>path := coordinatesOf routeData,
                                       distance := distanceOf routeData\<rparr>,
                    progress := \<lparr>currentKm = Fin 0, totalKm = distanceOf routeData,
                                  percentage = Fin 0\<rparr>,
                    appState := TRACKING\<rparr>
                else
                  (let total = haversineDistance st en
                   in if num_gt total (Fin 0) then
                        s\<lparr>isLoading := False,
                          progress := \<lparr>currentKm = Fin 0, totalKm = total, percentage = Fin 0\<rparr>,
                          appState := TRACKING\<rparr>
                      else s\<lparr>isLoading := False\<rparr>))
      | _ \<Rightarrow> s)"

definition addDistance :: "App \<Rightarrow> App" where
  "addDistance s =
     (let added = parseFloat (inputKm s)
      in if \<not> isNaN added \<and> num_gt added (Fin 0) then
           (let prev = progress s;
                newCurrent = num_min (num_add (currentKm prev) added) (totalKm prev)
            in s\<lparr>progress := prev\<lparr>currentKm := newCurrent,
                                   percentage := num_div newCurrent (totalKm prev),
                                   totalKm := totalKm prev\<rparr>,
                 inputKm := [],
                 appState := CELEBRATION\<rparr>)
         else s)"

text \<open>The input field of the tracking panel: \<open>setInputKm\<close> with the text typed.\<close>

definition setInputKm :: "string \<Rightarrow> App \<Rightarrow> App" where
  "setInputKm v s = s\<lparr>inputKm := v\<rparr>"

text \<open>
  When the buttons are on the page and enabled: the start button in SETUP with an end
  point and no fetch under way, the add button in TRACKING with a non-empty input.
\<close>

definition startButtonEnabled :: "App \<Rightarrow> bool" where
  "startButtonEnabled s = (appState s = SETUP \<and> end' (route s) \<noteq> None \<and> \<not> isLoading s)"

definition addButtonEnabled :: "App \<Rightarrow> bool" where
  "addButtonEnabled s = (appState s = TRACKING \<and> inputKm s \<noteq> [])"

text \<open>
  The celebration page offers the reset when \<open>currentKm >= totalKm\<close>, and otherwise the
  way back to the map, which sets the phase to TRACKING.
\<close>

definition journeyComplete :: "App \<Rightarrow> bool" where
  "journeyComplete s = num_ge (currentKm (progress s)) (totalKm (progress s))"

definition continueTracking :: "App \<Rightarrow> App" where
  "continueTracking s = s\<lparr>appState := TRACKING\<rparr>"

text \<open>
  The percentage is the quotient of the two distances wherever the total is positive.
\<close>

definition percentageOfPositiveTotal :: "App \<Rightarrow> bool" where
  "percentageOfPositiveTotal s =
     (num_gt (totalKm (progress s)) (Fin 0)
      \<longrightarrow> percentage (progress s) = num_div (currentKm (progress s)) (totalKm (progress s)))"

section \<open>Example inputs\<close>

text \<open>
  Two different points so close that the length of the segment between them is computed
  as 0: the square of the sine of half the difference of the latitudes underflows.
\<close>

definition tinyLat :: real where
  "tinyLat = 1 / 2 ^ 700"

definition closePoints :: "Point list" where
  "closePoints = [\<lparr>lat = 0, lng = 0\<rparr>, \<lparr>lat = tinyLat, lng = 0\<rparr>]"

text \<open>One degree of the equator.\<close>

definition equatorDegree :: "Point list" where
  "equatorDegree = [\<lparr>lat = 0, lng = 0\<rparr>, \<lparr>lat = 0, lng = 1\<rparr>]"

text \<open>A point selected on the map a few meters from the default start.\<close>

definition nearbyClick :: Point where
  "nearbyClick = \<lparr>lat = 48.2097, lng = 13.4883\<rparr>"

text \<open>
  A routing service that snaps both end points to the same position of the road network:
  it answers with a route of length 0.
\<close>

definition snappedService :: "Point \<Rightarrow> Point \<Rightarrow> FetchOutcome" where
  "snappedService st en =
     Responded \<lparr>code = ''Ok'',
                routes = Some [\<lparr>geometry_coordinates = Some [(13.48831, 48.20967), (13.48831, 48.20967)],
                                distance_m = Fin 0\<rparr>]\<rparr>"

text \<open>A service that cannot be reached, one that finds no route, and one that finds a route.\<close>

definition offlineService :: "Point \<Rightarrow> Point \<Rightarrow> FetchOutcome" where
  "offlineService st en = Rejected ''Failed to fetch''"

definition noRouteService :: "Point \<Rightarrow> Point \<Rightarrow> FetchOutcome" where
  "noRouteService st en = Responded \<lparr>code = ''NoRoute'', routes = None\<rparr>"

definition emptyRoutesService :: "Point \<Rightarrow> Point \<Rightarrow> FetchOutcome" where
  "emptyRoutesService st en = Responded \<lparr>code = ''Ok'', routes = Some []\<rparr>"

definition okService :: "Point \<Rightarrow> Point \<Rightarrow> FetchOutcome" where
  "okService st en =
     Responded \<lparr>code = ''Ok'',
                routes = Some [\<lparr>geometry_coordinates = Some [(13.48, 48.2), (13.49, 48.21)],
                                distance_m = Fin 1500\<rparr>]\<rparr>"

text \<open>A journey of 10 km with 8 km ridden, and 5 typed into the input field.\<close>

definition trackingExample :: App where
  "trackingExample =
     \<lparr>appState = TRACKING,
      route = \<lparr>start = Some defaultStart, end' = Some nearbyClick, path = [], distance = Fin 10\<rparr>,
      progress = \<lparr>currentKm = Fin 8, totalKm = Fin 10, percentage = Fin 0.8\<rparr>,
      inputKm = ''5'', isLoading = False, showCelebration = False\<rparr>"

section \<open>Properties of rounding\<close>

lemma pow2_pos: "0 < pow2 j"
  by (simp add: pow2_def)

lemma pow2_add: "pow2 (i + j) = pow2 i * pow2 j"
  by (simp add: pow2_def powr_add)

lemma pow2_diff: "pow2 (i - j) = pow2 i / pow2 j"
  by (simp add: pow2_def powr_diff)

lemma pow2_nat: "pow2 (int n) = 2 ^ n"
  by (simp add: pow2_def powr_realpow)

lemma pow2_neg_nat: "pow2 (- int n) = 1 / 2 ^ n"
  by (simp add: pow2_def powr_minus powr_realpow inverse_eq_divide)

lemma pow2_mono: "i \<le> j \<Longrightarrow> pow2 i \<le> pow2 j"
  by (simp add: pow2_def)

lemma pow2_is_int: "0 \<le> j \<Longrightarrow> pow2 j = of_int (2 ^ nat j)"
  using pow2_nat [of "nat j"] by simp

lemma binade: "0 < a \<Longrightarrow> pow2 \<lfloor>log 2 a\<rfloor> \<le> a \<and> a < pow2 (\<lfloor>log 2 a\<rfloor> + 1)"
  using floor_log_eq_powr_iff [of a 2 "\<lfloor>log 2 a\<rfloor>"] by (simp add: pow2_def)

lemma floor_log2_mono: "0 < a \<Longrightarrow> a \<le> b \<Longrightarrow> \<lfloor>log 2 a\<rfloor> \<le> \<lfloor>log 2 b\<rfloor>"
  by (intro floor_mono) simp

lemma floor_log2_less: "0 < a \<Longrightarrow> a < pow2 n \<Longrightarrow> \<lfloor>log 2 a\<rfloor> < n"
proof (rule ccontr)
  assume a: "0 < a" and lt: "a < pow2 n" and "\<not> \<lfloor>log 2 a\<rfloor> < n"
  then have "pow2 n \<le> pow2 \<lfloor>log 2 a\<rfloor>" by (intro pow2_mono) simp
  also have "\<dots> \<le> a" using binade [OF a] by simp
  finally show False using lt by simp
qed

lemma roundHalfEven_cases: "roundHalfEven y = \<lfloor>y\<rfloor> \<or> roundHalfEven y = \<lfloor>y\<rfloor> + 1"
  by (simp add: roundHalfEven_def Let_def)

lemma roundHalfEven_of_int: "roundHalfEven (of_int k) = k"
  by (simp add: roundHalfEven_def)

lemma roundHalfEven_mono: "a \<le> b \<Longrightarrow> roundHalfEven a \<le> roundHalfEven b"
proof -
  assume ab: "a \<le> b"
  then have fl: "\<lfloor>a\<rfloor> \<le> \<lfloor>b\<rfloor>" by (rule floor_mono)
  show ?thesis
  proof (cases "\<lfloor>a\<rfloor> = \<lfloor>b\<rfloor>")
    case True
    with ab show ?thesis
      by (auto simp add: roundHalfEven_def Let_def)
  next
    case False
    with fl have "\<lfloor>a\<rfloor> + 1 \<le> \<lfloor>b\<rfloor>" by simp
    then show ?thesis
      using roundHalfEven_cases [of a] roundHalfEven_cases [of b] by auto
  qed
qed

lemma roundHalfEven_small: "0 \<le> y \<Longrightarrow> y < 1 / 2 \<Longrightarrow> roundHalfEven y = 0"
proof -
  assume "0 \<le> y" "y < 1 / 2"
  then have "\<lfloor>y\<rfloor> = 0" by (simp add: floor_eq_iff)
  with \<open>y < 1 / 2\<close> show ?thesis by (simp add: roundHalfEven_def Let_def)
qed

lemma expo_mono: "0 < a \<Longrightarrow> a \<le> b \<Longrightarrow> expo a \<le> expo b"
  using floor_log2_mono [of a b] by (simp add: expo_def)

lemma expo_ge: "- 1074 \<le> expo a - 52"
  by (simp add: expo_def)

lemma expo_upper: "0 < a \<Longrightarrow> a < pow2 (expo a + 1)"
proof -
  assume a: "0 < a"
  then have "a < pow2 (\<lfloor>log 2 a\<rfloor> + 1)" using binade by simp
  also have "\<dots> \<le> pow2 (expo a + 1)" by (intro pow2_mono) (simp add: expo_def)
  finally show ?thesis .
qed

lemma expo_lower: "0 < a \<Longrightarrow> - 1022 < expo a \<Longrightarrow> pow2 (expo a) \<le> a"
  using binade [of a] by (simp add: expo_def max_def split: if_splits)

lemma scaled_pow2: "pow2 i / pow2 (j - 52) = pow2 (i - j + 52)"
  by (simp add: pow2_diff [symmetric] algebra_simps)

lemma roundHalfEven_le_2_53: "0 < a \<Longrightarrow> roundHalfEven (a / spacing a) \<le> 2 ^ 53"
proof -
  assume a: "0 < a"
  let ?q = "pow2 (expo a - 52)"
  have "a / ?q \<le> pow2 (expo a + 1) / ?q"
    using expo_upper [OF a] pow2_pos [of "expo a - 52"] by (simp add: divide_right_mono)
  also have "\<dots> = of_int (2 ^ 53)"
    using pow2_is_int [of 53] by (simp add: scaled_pow2)
  finally have "roundHalfEven (a / ?q) \<le> roundHalfEven (of_int (2 ^ 53))"
    by (rule roundHalfEven_mono)
  then show ?thesis by (simp only: roundHalfEven_of_int spacing_def)
qed

lemma nearest_nonneg: "0 < a \<Longrightarrow> 0 \<le> nearest a"
proof -
  assume a: "0 < a"
  have "0 \<le> a / spacing a" using a pow2_pos [of "expo a - 52"] by (simp add: spacing_def)
  then have "roundHalfEven 0 \<le> roundHalfEven (a / spacing a)" by (rule roundHalfEven_mono)
  then have "0 \<le> roundHalfEven (a / spacing a)" using roundHalfEven_of_int [of 0] by simp
  then show ?thesis
    using pow2_pos [of "expo a - 52"] by (simp add: nearest_def spacing_def)
qed

lemma nearest_upper: "0 < a \<Longrightarrow> nearest a \<le> pow2 (expo a + 1)"
proof -
  assume a: "0 < a"
  let ?q = "pow2 (expo a - 52)"
  have "roundHalfEven (a / ?q) \<le> 2 ^ 53"
    using roundHalfEven_le_2_53 [OF a] by (simp only: spacing_def)
  then have "of_int (roundHalfEven (a / ?q)) \<le> (of_int (2 ^ 53) :: real)" by (simp only: of_int_le_iff)
  then have "of_int (roundHalfEven (a / ?q)) * ?q \<le> of_int (2 ^ 53) * ?q"
    using pow2_pos [of "expo a - 52"] by (simp add: mult_right_mono)
  also have "of_int (2 ^ 53) * ?q = pow2 53 * ?q" using pow2_is_int [of 53] by simp
  also have "\<dots> = pow2 (expo a + 1)" by (simp add: pow2_add [symmetric] add.commute)
  finally show ?thesis by (simp add: nearest_def spacing_def)
qed

lemma nearest_lower: "0 < a \<Longrightarrow> - 1022 < expo a \<Longrightarrow> pow2 (expo a) \<le> nearest a"
proof -
  assume a: "0 < a" and e: "- 1022 < expo a"
  let ?q = "pow2 (expo a - 52)"
  have "pow2 (expo a) / ?q \<le> a / ?q"
    using expo_lower [OF a e] pow2_pos [of "expo a - 52"] by (simp add: divide_right_mono)
  moreover have "pow2 (expo a) / ?q = of_int (2 ^ 52)"
    using pow2_is_int [of 52] by (simp add: scaled_pow2)
  ultimately have "roundHalfEven (of_int (2 ^ 52)) \<le> roundHalfEven (a / ?q)"
    using roundHalfEven_mono [of "of_int (2 ^ 52)" "a / ?q"] by simp
  then have "2 ^ 52 \<le> roundHalfEven (a / ?q)" by (simp only: roundHalfEven_of_int)
  then have "(of_int (2 ^ 52) :: real) \<le> of_int (roundHalfEven (a / ?q))" by (simp only: of_int_le_iff)
  then have "of_int (2 ^ 52) * ?q \<le> of_int (roundHalfEven (a / ?q)) * ?q"
    using pow2_pos [of "expo a - 52"] by (simp add: mult_right_mono)
  moreover have "of_int (2 ^ 52) * ?q = pow2 52 * ?q" using pow2_is_int [of 52] by simp
  moreover have "pow2 52 * ?q = pow2 (expo a)" by (simp add: pow2_add [symmetric])
  ultimately show ?thesis by (simp add: nearest_def spacing_def)
qed

lemma nearest_mono: "0 < a \<Longrightarrow> a \<le> b \<Longrightarrow> nearest a \<le> nearest b"
proof -
  assume a: "0 < a" and ab: "a \<le> b"
  then have b: "0 < b" by simp
  have ee: "expo a \<le> expo b" using a ab by (rule expo_mono)
  show ?thesis
  proof (cases "expo a = expo b")
    case True
    let ?q = "pow2 (expo b - 52)"
    have "a / ?q \<le> b / ?q" using ab pow2_pos [of "expo b - 52"] by (simp add: divide_right_mono)
    then have "roundHalfEven (a / ?q) \<le> roundHalfEven (b / ?q)" by (rule roundHalfEven_mono)
    then have "(of_int (roundHalfEven (a / ?q)) :: real) \<le> of_int (roundHalfEven (b / ?q))" by simp
    then have "of_int (roundHalfEven (a / ?q)) * ?q \<le> of_int (roundHalfEven (b / ?q)) * ?q"
      using pow2_pos [of "expo b - 52"] by (simp add: mult_right_mono)
    then show ?thesis using True by (simp add: nearest_def spacing_def)
  next
    case False
    with ee have lt: "expo a < expo b" by simp
    have "- 1022 \<le> expo a" by (simp add: expo_def)
    with lt have eb: "- 1022 < expo b" by simp
    have "nearest a \<le> pow2 (expo a + 1)" using a by (rule nearest_upper)
    also have "\<dots> \<le> pow2 (expo b)" using lt by (intro pow2_mono) simp
    also have "\<dots> \<le> nearest b" using b eb by (rule nearest_lower)
    finally show ?thesis .
  qed
qed

lemma nearest_grid:
  assumes k: "0 < k" "k < 2 ^ 53" and j: "- 1074 \<le> j"
  shows "nearest (of_int k * pow2 j) = of_int k * pow2 j"
proof -
  define a where "a = of_int k * pow2 j"
  define e where "e = expo a - 52"
  have a: "0 < a" using k pow2_pos [of j] by (simp add: a_def)
  have "a < of_int (2 ^ 53) * pow2 j"
    unfolding a_def using k(2) pow2_pos [of j]
    by (intro mult_strict_right_mono) (simp_all only: of_int_less_iff)
  also have "of_int (2 ^ 53) * pow2 j = pow2 (j + 53)"
    using pow2_is_int [of 53] by (simp add: pow2_add)
  finally have "\<lfloor>log 2 a\<rfloor> < j + 53" using a floor_log2_less by blast
  with j have e: "e \<le> j" by (simp add: expo_def e_def)
  define d where "d = nat (j - e)"
  have jd: "j = e + int d" using e by (simp add: d_def)
  have pj: "pow2 j = pow2 e * 2 ^ d"
    by (subst jd) (simp only: pow2_add pow2_nat)
  have q: "a / pow2 e = of_int (k * 2 ^ d)"
    unfolding a_def pj using pow2_pos [of e] by simp
  have "nearest a = of_int (k * 2 ^ d) * pow2 e"
    unfolding nearest_def spacing_def e_def [symmetric] q roundHalfEven_of_int ..
  also have "\<dots> = of_int k * (pow2 e * 2 ^ d)" by simp
  also have "\<dots> = a" unfolding a_def pj ..
  finally show ?thesis unfolding a_def .
qed

lemma nearest_grid_top:
  assumes j: "- 1074 \<le> j"
  shows "nearest (of_int (2 ^ 53) * pow2 j) = of_int (2 ^ 53) * pow2 j"
proof -
  have eq: "of_int (2 ^ 53) * pow2 j = of_int (2 ^ 52) * pow2 (j + 1)"
    using pow2_is_int [of 1] by (simp add: pow2_add)
  have "nearest (of_int (2 ^ 52) * pow2 (j + 1)) = of_int (2 ^ 52) * pow2 (j + 1)"
    using j by (intro nearest_grid) simp_all
  then show ?thesis unfolding eq .
qed

lemma nearest_idem: "0 < a \<Longrightarrow> 0 < nearest a \<Longrightarrow> nearest (nearest a) = nearest a"
proof -
  assume a: "0 < a" and pos: "0 < nearest a"
  define m where "m = roundHalfEven (a / spacing a)"
  have n: "nearest a = of_int m * pow2 (expo a - 52)" by (simp add: nearest_def m_def spacing_def)
  have m53: "m \<le> 2 ^ 53" unfolding m_def using a by (rule roundHalfEven_le_2_53)
  have m0: "0 < m"
  proof (rule ccontr)
    assume "\<not> 0 < m"
    then have "of_int m \<le> (0 :: real)" by simp
    then have "of_int m * pow2 (expo a - 52) \<le> 0"
      using pow2_pos [of "expo a - 52"] by (simp add: mult_le_0_iff)
    with pos n show False by simp
  qed
  show ?thesis
  proof (cases "m = 2 ^ 53")
    case True
    then show ?thesis unfolding n using nearest_grid_top [OF expo_ge [of a]] by simp
  next
    case False
    with m53 have "m < 2 ^ 53" by simp
    then show ?thesis unfolding n using m0 expo_ge [of a] by (intro nearest_grid)
  qed
qed

lemma nearest_underflow: "0 < a \<Longrightarrow> a < pow2 (- 1075) \<Longrightarrow> nearest a = 0"
proof -
  assume a: "0 < a" and small: "a < pow2 (- 1075)"
  then have "\<lfloor>log 2 a\<rfloor> < - 1075" by (rule floor_log2_less)
  then have e: "expo a = - 1022" by (simp add: expo_def)
  have "a / pow2 (- 1074) < pow2 (- 1075) / pow2 (- 1074)"
    using small pow2_pos [of "- 1074"] by (simp add: divide_strict_right_mono)
  also have "pow2 (- 1075) / pow2 (- 1074) = 1 / 2"
    using pow2_neg_nat [of 1] by (simp add: pow2_diff [symmetric])
  finally have "roundHalfEven (a / pow2 (- 1074)) = 0"
    using a pow2_pos [of "- 1074"] by (intro roundHalfEven_small) simp_all
  then show ?thesis by (simp add: nearest_def spacing_def e)
qed

subsection \<open>Rounding a real to a number\<close>

lemma num_le_Fin [simp]: "num_le (Fin a) (Fin b) = (a \<le> b)"
  by (auto simp add: num_le_def)

lemma num_le_refl: "\<not> isNaN a \<Longrightarrow> num_le a a"
  by (cases a) (auto simp add: num_le_def)

lemma num_le_trans: "num_le a b \<Longrightarrow> num_le b c \<Longrightarrow> num_le a c"
  by (cases a; cases b; cases c) (auto simp add: num_le_def)

lemma num_le_not_NaN: "num_le a b \<Longrightarrow> \<not> isNaN a \<and> \<not> isNaN b"
  by (cases a; cases b) (auto simp add: num_le_def)

lemma num_le_gt: "num_le x t \<Longrightarrow> num_gt d t \<Longrightarrow> \<not> num_ge x d \<and> \<not> num_le d x"
  by (cases x; cases t; cases d) (auto simp add: num_le_def)

lemma overflowThreshold_pos: "0 < overflowThreshold"
  by (simp add: overflowThreshold_def)

lemma toDouble_0 [simp]: "toDouble 0 = Fin 0"
  by (simp add: toDouble_def)

lemma toDouble_not_NaN: "\<not> isNaN (toDouble x)"
  by (simp add: toDouble_def Let_def)

lemma toDouble_pos_cases:
  "0 < x \<Longrightarrow> toDouble x = (if overflowThreshold \<le> nearest x then PosInf else Fin (nearest x))"
  by (simp add: toDouble_def Let_def)

lemma toDouble_minus: "toDouble (- x) = num_neg (toDouble x)"
  by (simp add: toDouble_def Let_def)

lemma toDouble_nonneg: "0 \<le> x \<Longrightarrow> num_le (Fin 0) (toDouble x)"
proof (cases "x = 0")
  case True
  then show ?thesis by simp
next
  case False
  assume "0 \<le> x"
  with False have x: "0 < x" by simp
  then show ?thesis
    using nearest_nonneg [OF x] by (auto simp add: toDouble_pos_cases num_le_def)
qed

lemma toDouble_mono_pos: "0 < x \<Longrightarrow> x \<le> y \<Longrightarrow> num_le (toDouble x) (toDouble y)"
proof -
  assume x: "0 < x" and xy: "x \<le> y"
  then have y: "0 < y" by simp
  have "nearest x \<le> nearest y" using x xy by (rule nearest_mono)
  then show ?thesis
    using x y by (auto simp add: toDouble_pos_cases num_le_def)
qed

lemma num_le_neg: "num_le a b \<Longrightarrow> num_le (num_neg b) (num_neg a)"
  by (cases a; cases b) (auto simp add: num_le_def)

lemma num_neg_neg [simp]: "num_neg (num_neg a) = a"
  by (cases a) simp_all

lemma toDouble_nonpos: "x \<le> 0 \<Longrightarrow> num_le (toDouble x) (Fin 0)"
proof -
  assume "x \<le> 0"
  then have "num_le (Fin 0) (toDouble (- x))" by (intro toDouble_nonneg) simp
  then have "num_le (num_neg (toDouble (- x))) (num_neg (Fin 0))" by (rule num_le_neg)
  then show ?thesis by (simp add: toDouble_minus)
qed

lemma toDouble_mono: "x \<le> y \<Longrightarrow> num_le (toDouble x) (toDouble y)"
proof -
  assume xy: "x \<le> y"
  consider "0 < x" | "x \<le> 0" "0 \<le> y" | "y < 0" by linarith
  then show ?thesis
  proof cases
    case 1
    then show ?thesis using xy by (rule toDouble_mono_pos)
  next
    case 2
    then show ?thesis
      using toDouble_nonpos [of x] toDouble_nonneg [of y] num_le_trans by blast
  next
    case 3
    then have "0 < - y" "- y \<le> - x" using xy by simp_all
    then have "num_le (toDouble (- y)) (toDouble (- x))" by (rule toDouble_mono_pos)
    then have "num_le (num_neg (toDouble (- x))) (num_neg (toDouble (- y)))" by (rule num_le_neg)
    then show ?thesis by (simp add: toDouble_minus)
  qed
qed

lemma toDouble_idem_pos: "0 < x \<Longrightarrow> toDouble x = Fin v \<Longrightarrow> toDouble v = Fin v"
proof -
  assume x: "0 < x" and eq: "toDouble x = Fin v"
  then have v: "v = nearest x" "\<not> overflowThreshold \<le> nearest x"
    by (simp_all add: toDouble_pos_cases split: if_splits)
  show ?thesis
  proof (cases "0 < nearest x")
    case True
    then have "nearest (nearest x) = nearest x" using x by (intro nearest_idem)
    with True v show ?thesis by (simp add: toDouble_pos_cases)
  next
    case False
    with nearest_nonneg [OF x] v have "v = 0" by simp
    then show ?thesis by simp
  qed
qed

lemma toDouble_idem: "toDouble x = Fin v \<Longrightarrow> toDouble v = Fin v"
proof -
  assume eq: "toDouble x = Fin v"
  consider "0 < x" | "x = 0" | "x < 0" by linarith
  then show ?thesis
  proof cases
    case 1
    then show ?thesis using eq by (rule toDouble_idem_pos)
  next
    case 2
    with eq show ?thesis by simp
  next
    case 3
    then have "0 < - x" by simp
    moreover from eq have "toDouble (- x) = Fin (- v)" by (simp add: toDouble_minus)
    ultimately have "toDouble (- v) = Fin (- v)" by (rule toDouble_idem_pos)
    then have "num_neg (toDouble v) = Fin (- v)" by (simp add: toDouble_minus)
    then have "num_neg (num_neg (toDouble v)) = num_neg (Fin (- v))" by simp
    then show ?thesis by simp
  qed
qed

lemma isDouble_toDouble: "isDouble (toDouble x)"
  by (cases "toDouble x") (simp_all add: toDouble_idem)

lemma isDouble_rounded: "isDouble (rounded a)"
  by (cases a) (simp_all add: isDouble_toDouble)

lemma toDouble_grid:
  assumes "0 < k" "k < 2 ^ 53" "- 1074 \<le> j" "of_int k * pow2 j < overflowThreshold"
  shows "toDouble (of_int k * pow2 j) = Fin (of_int k * pow2 j)"
proof -
  have pos: "0 < of_int k * pow2 j" using assms(1) pow2_pos [of j] by simp
  have "nearest (of_int k * pow2 j) = of_int k * pow2 j" using assms(1-3) by (rule nearest_grid)
  with pos assms(4) show ?thesis by (simp add: toDouble_pos_cases)
qed

lemma toDouble_int: "0 < k \<Longrightarrow> k < 2 ^ 53 \<Longrightarrow> toDouble (of_int k) = Fin (of_int k)"
proof -
  assume k: "0 < k" "k < 2 ^ 53"
  have "(of_int k :: real) < of_int (2 ^ 53)" using k(2) by (simp only: of_int_less_iff)
  also have "\<dots> < overflowThreshold" by (simp add: overflowThreshold_def)
  finally have "of_int k * pow2 0 < overflowThreshold" by (simp add: pow2_def)
  then have "toDouble (of_int k * pow2 0) = Fin (of_int k * pow2 0)"
    using k by (intro toDouble_grid) simp_all
  then show ?thesis by (simp add: pow2_def)
qed

lemma toDouble_1 [simp]: "toDouble 1 = Fin 1"
  using toDouble_int [of 1] by simp

lemma toDouble_3 [simp]: "toDouble 3 = Fin 3"
  using toDouble_int [of 3] by simp

lemma toDouble_5 [simp]: "toDouble 5 = Fin 5"
  using toDouble_int [of 5] by simp

lemma toDouble_underflow: "\<bar>x\<bar> < 1 / 2 ^ 1075 \<Longrightarrow> toDouble x = Fin 0"
proof (cases "x = 0")
  case True
  then show ?thesis by simp
next
  case False
  assume small: "\<bar>x\<bar> < 1 / 2 ^ 1075"
  have "pow2 (- 1075) = 1 / 2 ^ 1075" using pow2_neg_nat [of 1075] by simp
  with small False have "nearest \<bar>x\<bar> = 0" by (intro nearest_underflow) simp_all
  with False overflowThreshold_pos show ?thesis by (simp add: toDouble_def Let_def)
qed

lemma toDouble_bounded:
  assumes "\<bar>z\<bar> \<le> b" "toDouble b = Fin b"
  shows "\<exists>v. toDouble z = Fin v \<and> \<bar>v\<bar> \<le> b"
proof -
  have b0: "0 \<le> b" using assms(1) by simp
  have up: "num_le (toDouble z) (Fin b)"
    using toDouble_mono [of z b] assms by simp
  have "toDouble (- b) = Fin (- b)" using assms(2) by (simp add: toDouble_minus)
  then have lo: "num_le (Fin (- b)) (toDouble z)"
    using toDouble_mono [of "- b" z] assms(1) by simp
  show ?thesis
    using up lo by (cases "toDouble z") (auto simp add: num_le_def)
qed

section \<open>Properties of the geodesic distance\<close>

lemma notNegative_Fin [simp]: "notNegative (Fin v) = (0 \<le> v)"
  by (simp add: notNegative_def)

lemma notNegative_toDouble: "0 \<le> x \<Longrightarrow> notNegative (toDouble x)"
  by (simp add: notNegative_def toDouble_nonneg)

lemma notNegative_rounded: "notNegative a \<Longrightarrow> notNegative (rounded a)"
  by (cases a) (simp_all add: notNegative_toDouble)

lemma notNegative_num_mul: "notNegative a \<Longrightarrow> notNegative b \<Longrightarrow> notNegative (num_mul a b)"
  by (cases a; cases b) (auto simp add: notNegative_def num_le_def)


lemma notNegative_dbl_mul: "notNegative a \<Longrightarrow> notNegative b \<Longrightarrow> notNegative (dbl_mul a b)"
  by (simp add: dbl_mul_def notNegative_rounded notNegative_num_mul)

lemma notNegative_NaN [simp]: "notNegative NaN"
  by (simp add: notNegative_def)

lemma notNegative_PosInf [simp]: "notNegative PosInf"
  by (simp add: notNegative_def num_le_def)

lemma notNegative_NegInf [simp]: "\<not> notNegative NegInf"
  by (simp add: notNegative_def num_le_def)

lemma notNegative_dbl_sqrt: "notNegative (dbl_sqrt a)"
  by (cases a) (simp_all add: notNegative_toDouble)

lemma atan2_nonneg: "0 \<le> y \<Longrightarrow> 0 \<le> atan2 y x"
proof -
  assume y: "0 \<le> y"
  have "- (pi / 2) < arctan (y / x)" by (rule arctan_lbound)
  then have "0 \<le> arctan (y / x) + pi" using pi_gt_zero by linarith
  moreover have "0 < x \<Longrightarrow> 0 \<le> arctan (y / x)" using y by (simp add: zero_le_arctan_iff)
  ultimately show ?thesis using y by (simp add: atan2_def)
qed

lemma notNegative_dbl_atan2: "notNegative y \<Longrightarrow> notNegative (dbl_atan2 y x)"
proof (cases y)
  case (Fin v)
  assume "notNegative y"
  with Fin have v: "0 \<le> v" by simp
  show ?thesis
    using Fin v pi_gt_zero by (cases x) (simp_all add: notNegative_toDouble atan2_nonneg)
next
  case PosInf
  then show ?thesis
    using pi_gt_zero by (cases x) (simp_all add: notNegative_toDouble)
qed simp_all

lemma isDouble_haversineDistance: "isDouble (haversineDistance p q)"
  by (simp add: haversineDistance_def Let_def dbl_mul_def isDouble_rounded)

lemma notNegative_haversineDistance: "notNegative (haversineDistance p q)"
  unfolding haversineDistance_def Let_def
  by (intro notNegative_dbl_mul notNegative_dbl_atan2 notNegative_dbl_sqrt) simp_all

lemma toDouble_inv_pow2: "n \<le> 1074 \<Longrightarrow> toDouble (1 / 2 ^ n) = Fin (1 / 2 ^ n)"
proof -
  assume n: "n \<le> 1074"
  have "(1 :: real) / 2 ^ n \<le> 1" by simp
  also have "\<dots> < overflowThreshold" by (simp add: overflowThreshold_def)
  finally have "of_int 1 * pow2 (- int n) < overflowThreshold"
    by (simp add: pow2_neg_nat)
  then have "toDouble (of_int 1 * pow2 (- int n)) = Fin (of_int 1 * pow2 (- int n))"
    using n by (intro toDouble_grid) simp_all
  then show ?thesis by (simp add: pow2_neg_nat)
qed

text \<open>A product of two numbers of magnitude at most \<open>2^(-690)\<close> underflows to 0.\<close>

lemma toDouble_small_product:
  assumes "\<bar>u\<bar> \<le> 1 / 2 ^ 690" "\<bar>w\<bar> \<le> 1 / 2 ^ 690"
  shows "toDouble (u * w) = Fin 0"
proof -
  have "\<bar>u * w\<bar> \<le> (1 / 2 ^ 690) * (1 / 2 ^ 690)"
    unfolding abs_mult using assms by (intro mult_mono) simp_all
  also have "\<dots> = (1 :: real) / 2 ^ 1380" by (simp add: power_add [symmetric])
  also have "\<dots> < 1 / 2 ^ 1075" by (simp add: field_simps)
  finally show ?thesis by (rule toDouble_underflow)
qed

lemma haversineDistance_tiny:
  assumes dt: "toDouble t = Fin t" and small: "\<bar>t\<bar> \<le> 1 / 2 ^ 700"
  shows "haversineDistance \<lparr>lat = 0, lng = 0\<rparr> \<lparr>lat = t, lng = 0\<rparr> = Fin 0"
proof -
  define B :: real where "B = 1 / 2 ^ 690"
  define p :: real where "p = 884279719003555 / 281474976710656"
  have dB: "toDouble B = Fin B" unfolding B_def by (rule toDouble_inv_pow2) simp
  have p: "\<bar>p\<bar> \<le> 4" by (simp add: p_def)
  have "\<bar>t * p\<bar> \<le> (1 / 2 ^ 700) * 4"
    unfolding abs_mult using small p by (intro mult_mono) simp_all
  also have "\<dots> \<le> B" by (simp add: B_def)
  finally obtain v1 where v1: "toDouble (t * p) = Fin v1" "\<bar>v1\<bar> \<le> B"
    using toDouble_bounded [OF _ dB] by blast
  have "\<bar>v1 / 180\<bar> \<le> B" using v1(2) by simp
  then obtain v2 where v2: "toDouble (v1 / 180) = Fin v2" "\<bar>v2\<bar> \<le> B"
    using toDouble_bounded [OF _ dB] by blast
  have "\<bar>v2 / 2\<bar> \<le> B" using v2(2) by simp
  then obtain v3 where v3: "toDouble (v2 / 2) = Fin v3" "\<bar>v3\<bar> \<le> B"
    using toDouble_bounded [OF _ dB] by blast
  have "\<bar>sin v3\<bar> \<le> B" using abs_sin_x_le_abs_x [of v3] v3(2) by simp
  then obtain s where s: "toDouble (sin v3) = Fin s" "\<bar>s\<bar> \<le> B"
    using toDouble_bounded [OF _ dB] by blast
  have ss: "toDouble (s * s) = Fin 0"
    using s(2) by (intro toDouble_small_product) (simp_all add: B_def)
  have "\<bar>cos v2\<bar> \<le> 1" by (rule abs_cos_le_one)
  then obtain k where k: "toDouble (cos v2) = Fin k" "\<bar>k\<bar> \<le> 1"
    using toDouble_bounded [of "cos v2" 1] by auto
  have kk: "toDouble k = Fin k" using k(1) by (rule toDouble_idem)
  have pi_eq: "MathPI = Fin p" by (simp add: MathPI_def p_def)
  have toRad_t: "toRad (Fin t) = Fin v2"
    by (simp add: toRad_def dbl_mul_def dbl_div_def pi_eq v1 v2)
  have toRad_0: "toRad (Fin 0) = Fin 0"
    by (simp add: toRad_def dbl_mul_def dbl_div_def pi_eq)
  show ?thesis
    by (simp add: haversineDistance_def Let_def dbl_sub_def num_sub_def dt toRad_t toRad_0
        dbl_div_def v3 s dbl_mul_def ss k kk dbl_add_def atan2_def)
qed

lemma haversineDistance_closePoints:
  "haversineDistance \<lparr>lat = 0, lng = 0\<rparr> \<lparr>lat = tinyLat, lng = 0\<rparr> = Fin 0"
proof (rule haversineDistance_tiny)
  show "toDouble tinyLat = Fin tinyLat"
    unfolding tinyLat_def by (rule toDouble_inv_pow2) simp
  show "\<bar>tinyLat\<bar> \<le> 1 / 2 ^ 700"
    unfolding tinyLat_def by simp
qed

subsection \<open>A segment of ordinary length\<close>

lemma toDouble_MathPI:
  "toDouble (884279719003555 / 281474976710656) = Fin (884279719003555 / 281474976710656)"
proof -
  have p: "pow2 (- 48) = 1 / 281474976710656" using pow2_neg_nat [of 48] by simp
  have "of_int 884279719003555 * pow2 (- 48) < overflowThreshold"
    by (simp add: p overflowThreshold_def)
  then have "toDouble (of_int 884279719003555 * pow2 (- 48)) = Fin (of_int 884279719003555 * pow2 (- 48))"
    by (intro toDouble_grid) simp_all
  then show ?thesis by (simp add: p)
qed

lemma toDouble_bounded_nonneg:
  assumes "0 \<le> z" "z \<le> b" "toDouble b = Fin b"
  shows "\<exists>v. toDouble z = Fin v \<and> 0 \<le> v \<and> v \<le> b"
proof -
  from assms have "\<bar>z\<bar> \<le> b" by simp
  then obtain v where v: "toDouble z = Fin v" "\<bar>v\<bar> \<le> b"
    using toDouble_bounded [OF _ assms(3)] by blast
  moreover have "num_le (Fin 0) (toDouble z)" using assms(1) by (rule toDouble_nonneg)
  ultimately show ?thesis by auto
qed

lemma atan2_le_pi: "\<bar>atan2 y x\<bar> \<le> pi"
proof -
  have b: "- (pi / 2) < arctan (y / x)" "arctan (y / x) < pi / 2"
    by (rule arctan_lbound, rule arctan_ubound)
  have "0 \<le> y \<Longrightarrow> x < 0 \<Longrightarrow> arctan (y / x) \<le> 0"
    by (simp add: divide_nonneg_neg)
  moreover have "y < 0 \<Longrightarrow> x < 0 \<Longrightarrow> 0 \<le> arctan (y / x)"
    by (simp add: divide_nonpos_neg)
  ultimately show ?thesis
    using b pi_gt_zero by (auto simp add: atan2_def abs_le_iff)
qed

lemma toDouble_4: "toDouble 4 = Fin 4"
  using toDouble_int [of 4] by simp

lemma toDouble_8: "toDouble 8 = Fin 8"
  using toDouble_int [of 8] by simp

lemma toDouble_50968: "toDouble 50968 = Fin 50968"
  using toDouble_int [of 50968] by simp

text \<open>
  The length of one degree of the equator is computed as a number, not NaN, that is at
  most 50968.
\<close>

lemma haversineDistance_equatorDegree:
  "\<exists>v. haversineDistance \<lparr>lat = 0, lng = 0\<rparr> \<lparr>lat = 0, lng = 1\<rparr> = Fin v \<and> 0 \<le> v \<and> v \<le> 50968"
proof -
  define p :: real where "p = 884279719003555 / 281474976710656"
  have pi_eq: "MathPI = Fin p" by (simp add: MathPI_def p_def)
  have dp: "toDouble p = Fin p" unfolding p_def by (rule toDouble_MathPI)
  have d32: "toDouble (1 / 2 ^ 5) = Fin (1 / 2 ^ 5)" by (rule toDouble_inv_pow2) simp
  have d1024: "toDouble (1 / 2 ^ 10) = Fin (1 / 2 ^ 10)" by (rule toDouble_inv_pow2) simp
  have "\<bar>p / 180\<bar> \<le> 1 / 2 ^ 5" by (simp add: p_def)
  then obtain v2 where v2: "toDouble (p / 180) = Fin v2" "\<bar>v2\<bar> \<le> 1 / 2 ^ 5"
    using toDouble_bounded [OF _ d32] by blast
  have "\<bar>v2 / 2\<bar> \<le> 1 / 2 ^ 5" using v2(2) by simp
  then obtain v3 where v3: "toDouble (v2 / 2) = Fin v3" "\<bar>v3\<bar> \<le> 1 / 2 ^ 5"
    using toDouble_bounded [OF _ d32] by blast
  have "\<bar>sin v3\<bar> \<le> 1 / 2 ^ 5" using abs_sin_x_le_abs_x [of v3] v3(2) by simp
  then obtain s where s: "toDouble (sin v3) = Fin s" "\<bar>s\<bar> \<le> 1 / 2 ^ 5"
    using toDouble_bounded [OF _ d32] by blast
  have ds: "toDouble s = Fin s" using s(1) by (rule toDouble_idem)
  have "s * s \<le> (1 / 2 ^ 5) * (1 / 2 ^ 5)"
    using s(2) abs_mult [of s s] mult_mono [of "\<bar>s\<bar>" "1 / 2 ^ 5" "\<bar>s\<bar>" "1 / 2 ^ 5"] by simp
  then have "0 \<le> s * s" "s * s \<le> 1 / 2 ^ 10" by simp_all
  then obtain w where w: "toDouble (s * s) = Fin w" "0 \<le> w" "w \<le> 1 / 2 ^ 10"
    using toDouble_bounded_nonneg [OF _ _ d1024] by blast
  have dw: "toDouble w = Fin w" using w(1) by (rule toDouble_idem)
  have "0 \<le> sqrt w" "sqrt w \<le> 1" using w(2,3) by (simp_all add: real_le_lsqrt)
  then obtain y where y: "toDouble (sqrt w) = Fin y" "0 \<le> y" "y \<le> 1"
    using toDouble_bounded_nonneg [of "sqrt w" 1] by auto
  have "0 \<le> 1 - w" "1 - w \<le> 1" using w(2,3) by simp_all
  then obtain z where z: "toDouble (1 - w) = Fin z" "0 \<le> z" "z \<le> 1"
    using toDouble_bounded_nonneg [of "1 - w" 1] by auto
  have "0 \<le> sqrt z" "sqrt z \<le> 1" using z(2,3) by (simp_all add: real_le_lsqrt)
  then obtain x where x: "toDouble (sqrt z) = Fin x" "0 \<le> x" "x \<le> 1"
    using toDouble_bounded_nonneg [of "sqrt z" 1] by auto
  have "0 \<le> atan2 y x" using y(2) by (rule atan2_nonneg)
  moreover have "atan2 y x \<le> 4" using atan2_le_pi [of y x] pi_less_4 by simp
  ultimately obtain c0 where c0: "toDouble (atan2 y x) = Fin c0" "0 \<le> c0" "c0 \<le> 4"
    using toDouble_bounded_nonneg [OF _ _ toDouble_4] by blast
  have "0 \<le> 2 * c0" "2 * c0 \<le> 8" using c0(2,3) by simp_all
  then obtain c1 where c1: "toDouble (2 * c0) = Fin c1" "0 \<le> c1" "c1 \<le> 8"
    using toDouble_bounded_nonneg [OF _ _ toDouble_8] by blast
  have "0 \<le> 6371 * c1" "6371 * c1 \<le> 50968" using c1(2,3) by simp_all
  then obtain v where v: "toDouble (6371 * c1) = Fin v" "0 \<le> v" "v \<le> 50968"
    using toDouble_bounded_nonneg [OF _ _ toDouble_50968] by blast
  have nw: "\<not> w < 0" "\<not> z < 0" using w(2) z(2) by simp_all
  have toRad_1: "toRad (Fin 1) = Fin v2"
    by (simp add: toRad_def dbl_mul_def dbl_div_def pi_eq dp v2)
  have toRad_0: "toRad (Fin 0) = Fin 0"
    by (simp add: toRad_def dbl_mul_def dbl_div_def pi_eq)
  have "haversineDistance \<lparr>lat = 0, lng = 0\<rparr> \<lparr>lat = 0, lng = 1\<rparr> = Fin v"
    by (simp add: nw haversineDistance_def Let_def dbl_sub_def num_sub_def toRad_1 toRad_0
        dbl_div_def v3 s ds dbl_mul_def w dw dbl_add_def y z x c0 c1 v)
  with v show ?thesis by blast
qed

subsection \<open>The two orders of the arguments\<close>

text \<open>
  With the arguments exchanged the differences of the coordinates change their sign, the
  sines with them, and the products are the same: the two results are the same value.
  That value can be NaN, which \<open>==\<close> does not hold equal to itself. The distance from a
  point of valid latitude to itself is computed as 0.
\<close>

lemma rounded_neg: "rounded (num_neg a) = num_neg (rounded a)"
  by (cases a) (simp_all add: toDouble_minus)

lemma dbl_sub_swap: "dbl_sub (Fin b) (Fin a) = num_neg (dbl_sub (Fin a) (Fin b))"
  using toDouble_minus [of "a - b"] by (simp add: dbl_sub_def num_sub_def)

lemma num_mul_neg: "num_mul (num_neg a) b = num_neg (num_mul a b)"
  by (cases a; cases b) auto

lemma num_mul_commute: "num_mul a b = num_mul b a"
  by (cases a; cases b) (auto simp add: mult.commute)

lemma dbl_mul_commute: "dbl_mul a b = dbl_mul b a"
  by (simp add: dbl_mul_def num_mul_commute)

lemma dbl_mul_neg: "dbl_mul (num_neg a) b = num_neg (dbl_mul a b)"
  by (simp add: dbl_mul_def num_mul_neg rounded_neg)

lemma dbl_mul_neg2: "dbl_mul a (num_neg b) = num_neg (dbl_mul a b)"
  using dbl_mul_neg [of b a] by (simp add: dbl_mul_commute)

lemma dbl_div_neg: "0 < k \<Longrightarrow> dbl_div (num_neg a) (Fin k) = num_neg (dbl_div a (Fin k))"
  by (cases a) (simp_all add: dbl_div_def toDouble_minus [symmetric])

lemma toRad_neg: "toRad (num_neg x) = num_neg (toRad x)"
  by (simp add: toRad_def MathPI_def dbl_mul_neg dbl_div_neg)

lemma dbl_sin_neg: "dbl_sin (num_neg x) = num_neg (dbl_sin x)"
  by (cases x) (simp_all add: toDouble_minus [symmetric])

lemma halfSine_swap:
  "dbl_sin (dbl_div (toRad (dbl_sub (Fin b) (Fin a))) (Fin 2))
     = num_neg (dbl_sin (dbl_div (toRad (dbl_sub (Fin a) (Fin b))) (Fin 2)))"
  by (simp add: dbl_sub_swap [of b a] toRad_neg dbl_div_neg dbl_sin_neg)

lemma haversineDistance_same_value: "haversineDistance p q = haversineDistance q p"
  by (simp add: haversineDistance_def Let_def halfSine_swap [of "lat p" "lat q"]
      halfSine_swap [of "lng p" "lng q"] dbl_mul_neg dbl_mul_neg2
      dbl_mul_commute [of "dbl_cos (toRad (Fin (lat p)))"])

lemma toDouble_512: "toDouble 512 = Fin 512"
  using toDouble_int [of 512] by simp

lemma dbl_cos_toRad:
  assumes "\<bar>x\<bar> \<le> 90"
  shows "\<exists>k. dbl_cos (toRad (Fin x)) = Fin k \<and> \<bar>k\<bar> \<le> 1"
proof -
  define p :: real where "p = 884279719003555 / 281474976710656"
  have pi_eq: "MathPI = Fin p" by (simp add: MathPI_def p_def)
  have "0 \<le> p" "p \<le> 4" by (simp_all add: p_def)
  then have "\<bar>x * p\<bar> \<le> 90 * 4"
    using assms mult_mono [of "\<bar>x\<bar>" 90 "\<bar>p\<bar>" 4] by (simp add: abs_mult)
  then have "\<bar>x * p\<bar> \<le> 512" by simp
  then obtain m where m: "toDouble (x * p) = Fin m" "\<bar>m\<bar> \<le> 512"
    using toDouble_bounded [OF _ toDouble_512] by blast
  have "\<bar>m / 180\<bar> \<le> 512" using m(2) by simp
  then obtain r where r: "toDouble (m / 180) = Fin r" "\<bar>r\<bar> \<le> 512"
    using toDouble_bounded [OF _ toDouble_512] by blast
  have "\<bar>cos r\<bar> \<le> 1" by (rule abs_cos_le_one)
  then obtain k where k: "toDouble (cos r) = Fin k" "\<bar>k\<bar> \<le> 1"
    using toDouble_bounded [of "cos r" 1] by auto
  have "dbl_cos (toRad (Fin x)) = Fin k"
    by (simp add: toRad_def pi_eq dbl_mul_def dbl_div_def m r k)
  with k(2) show ?thesis by blast
qed

lemma haversineDistance_self:
  assumes "\<bar>lat p\<bar> \<le> 90"
  shows "haversineDistance p p = Fin 0"
proof -
  obtain k where k: "dbl_cos (toRad (Fin (lat p))) = Fin k" "\<bar>k\<bar> \<le> 1"
    using dbl_cos_toRad [OF assms] by blast
  have "\<bar>k * k\<bar> \<le> 1" using k(2) mult_mono [of "\<bar>k\<bar>" 1 "\<bar>k\<bar>" 1] by (simp add: abs_mult)
  then obtain kk where kk: "toDouble (k * k) = Fin kk"
    using toDouble_bounded [of "k * k" 1] by auto
  have toRad_0: "toRad (Fin 0) = Fin 0"
    by (simp add: toRad_def dbl_mul_def dbl_div_def MathPI_def)
  show ?thesis
    by (simp add: haversineDistance_def Let_def dbl_sub_def num_sub_def toRad_0 dbl_div_def
        dbl_mul_def dbl_add_def k kk atan2_def)
qed

section \<open>Properties of the path sampler\<close>

lemma isDouble_dbl_add: "isDouble (dbl_add a b)"
  by (simp add: dbl_add_def isDouble_rounded)

lemma dbl_add_ge:
  assumes "isDouble c" "notNegative s" "\<not> isNaN (dbl_add c s)"
  shows "num_le c (dbl_add c s)"
proof (cases c)
  case (Fin v)
  with assms(1) have dv: "toDouble v = Fin v" by simp
  show ?thesis
  proof (cases s)
    case (Fin w)
    with assms(2) have "v \<le> v + w" by simp
    then have "num_le (toDouble v) (toDouble (v + w))" by (rule toDouble_mono)
    with dv \<open>c = Fin v\<close> Fin show ?thesis by (simp add: dbl_add_def)
  next
    case PosInf
    with \<open>c = Fin v\<close> show ?thesis by (simp add: dbl_add_def num_le_def)
  next
    case NaN
    with assms(3) \<open>c = Fin v\<close> show ?thesis by (simp add: dbl_add_def)
  next
    case NegInf
    with assms(2) show ?thesis by (simp add: notNegative_def num_le_def)
  qed
next
  case NaN
  with assms(3) show ?thesis by (simp add: dbl_add_def)
next
  case PosInf
  with assms(2,3) show ?thesis
    by (cases s) (simp_all add: dbl_add_def num_le_def notNegative_def)
next
  case NegInf
  with assms(2,3) show ?thesis
    by (cases s) (simp_all add: dbl_add_def num_le_def notNegative_def)
qed

lemma sumSegments_ge:
  "isDouble c \<Longrightarrow> \<not> isNaN (sumSegments c ps) \<Longrightarrow> num_le c (sumSegments c ps)"
proof (induction c ps rule: sumSegments.induct)
  case (1 covered a b rest)
  let ?c = "dbl_add covered (haversineDistance a b)"
  from 1 have le: "num_le ?c (sumSegments ?c (b # rest))"
    by (simp add: isDouble_dbl_add)
  then have "\<not> isNaN ?c" using num_le_not_NaN by blast
  with 1(2) have "num_le covered ?c"
    by (intro dbl_add_ge notNegative_haversineDistance)
  with le have "num_le covered (sumSegments ?c (b # rest))" by (rule num_le_trans [rotated])
  then show ?case by simp
qed (simp_all add: num_le_refl)

lemma walkPath_beyond:
  "isDouble c \<Longrightarrow> ps \<noteq> [] \<Longrightarrow> num_gt d (sumSegments c ps) \<Longrightarrow>
   walkPath c d ps = Some (positionOf (last ps))"
proof (induction c d ps rule: walkPath.induct)
  case (1 covered distanceKm a b rest)
  let ?c = "dbl_add covered (haversineDistance a b)"
  from 1(4) have gt: "num_gt distanceKm (sumSegments ?c (b # rest))" by simp
  then have "\<not> isNaN (sumSegments ?c (b # rest))"
    by (cases distanceKm; cases "sumSegments ?c (b # rest)") simp_all
  then have "num_le ?c (sumSegments ?c (b # rest))"
    by (intro sumSegments_ge isDouble_dbl_add)
  with gt have no: "\<not> num_ge ?c distanceKm" using num_le_gt by blast
  have "walkPath ?c distanceKm (b # rest) = Some (positionOf (last (b # rest)))"
    using 1(1) [OF refl no] gt by (simp add: isDouble_dbl_add)
  with no show ?case by (simp add: Let_def)
qed auto

text \<open>
  C1, as the claim states it, fails where the distance equals the total length: for the
  two different points of \<open>closePoints\<close> the length of the segment is computed as 0, so the
  total length is 0; at distance 0, which equals it, the result is the first point, not
  the last one. (On a longer path the sum of the lengths can absorb a short last segment:
  then the loop returns at the end of an earlier segment.)
\<close>

theorem getPositionAlongPath_at_total_counterexample:
  "closePoints \<noteq> []
   \<and> pathLength closePoints = Fin 0
   \<and> num_ge (Fin 0) (pathLength closePoints)
   \<and> getPositionAlongPath closePoints (Fin 0) = Some (positionOf \<lparr>lat = 0, lng = 0\<rparr>)
   \<and> getPositionAlongPath closePoints (Fin 0) \<noteq> Some (positionOf (last closePoints))"
proof -
  have len: "pathLength closePoints = Fin 0"
    by (simp add: pathLength_def closePoints_def haversineDistance_closePoints dbl_add_def)
  have "getPositionAlongPath closePoints (Fin 0) = Some (positionOf \<lparr>lat = 0, lng = 0\<rparr>)"
    by (simp add: getPositionAlongPath_def closePoints_def)
  moreover have "0 < tinyLat" by (simp add: tinyLat_def)
  ultimately show ?thesis
    unfolding len by (simp add: closePoints_def positionOf_def)
qed

text \<open>
  C1 (amended). The boundary behaviour of the path sampler: \<open>getPositionAlongPath P d\<close> is
  null when \<open>P\<close> is empty; it is \<open>P[0]\<close> when \<open>P\<close> is not empty and \<open>d <= 0\<close>; and it
  is the last point of \<open>P\<close> when \<open>P\<close> is not empty and \<open>d\<close> is greater than the total
  length of \<open>P\<close>, the sum of the lengths of its segments as the loop adds them up.
\<close>

theorem getPositionAlongPath_boundary:
  "getPositionAlongPath [] d = None
   \<and> (P \<noteq> [] \<and> num_le d (Fin 0) \<longrightarrow> getPositionAlongPath P d = Some (positionOf (P ! 0)))
   \<and> (P \<noteq> [] \<and> num_gt d (pathLength P)
        \<longrightarrow> getPositionAlongPath P d = Some (positionOf (last P)))"
proof (intro conjI impI)
  show "getPositionAlongPath [] d = None"
    by (simp add: getPositionAlongPath_def)
next
  assume "P \<noteq> [] \<and> num_le d (Fin 0)"
  then show "getPositionAlongPath P d = Some (positionOf (P ! 0))"
    by (simp add: getPositionAlongPath_def)
next
  assume h: "P \<noteq> [] \<and> num_gt d (pathLength P)"
  then have gt: "num_gt d (sumSegments (Fin 0) P)" by (simp add: pathLength_def)
  then have "\<not> isNaN (sumSegments (Fin 0) P)"
    by (cases d; cases "sumSegments (Fin 0) P") simp_all
  then have "num_le (Fin 0) (sumSegments (Fin 0) P)"
    by (intro sumSegments_ge) simp_all
  with gt have "\<not> num_le d (Fin 0)" using num_le_gt by blast
  moreover have "walkPath (Fin 0) d P = Some (positionOf (last P))"
    using h gt by (intro walkPath_beyond) simp_all
  ultimately show "getPositionAlongPath P d = Some (positionOf (last P))"
    using h by (simp add: getPositionAlongPath_def)
qed

theorem getPositionAlongPath_boundary_witness:
  "getPositionAlongPath [] (Fin 3) = None
   \<and> num_le (Fin (- 1)) (Fin 0)
   \<and> getPositionAlongPath closePoints (Fin (- 1)) = Some (positionOf \<lparr>lat = 0, lng = 0\<rparr>)
   \<and> num_gt (Fin 1) (pathLength closePoints)
   \<and> getPositionAlongPath closePoints (Fin 1) = Some (positionOf \<lparr>lat = tinyLat, lng = 0\<rparr>)
   \<and> num_gt (Fin 100000) (pathLength equatorDegree)
   \<and> getPositionAlongPath equatorDegree (Fin 100000) = Some (positionOf \<lparr>lat = 0, lng = 1\<rparr>)"
proof -
  have len: "pathLength closePoints = Fin 0"
    by (simp add: pathLength_def closePoints_def haversineDistance_closePoints dbl_add_def)
  have ne: "closePoints \<noteq> []" "closePoints ! 0 = \<lparr>lat = 0, lng = 0\<rparr>"
    "last closePoints = \<lparr>lat = tinyLat, lng = 0\<rparr>"
    by (simp_all add: closePoints_def)
  obtain v where v: "haversineDistance \<lparr>lat = 0, lng = 0\<rparr> \<lparr>lat = 0, lng = 1\<rparr> = Fin v"
    "v \<le> 50968"
    using haversineDistance_equatorDegree by blast
  have dv: "toDouble v = Fin v"
    using isDouble_haversineDistance [of "\<lparr>lat = 0, lng = 0\<rparr>" "\<lparr>lat = 0, lng = 1\<rparr>"]
    by (simp add: v(1))
  have gt: "num_gt (Fin 100000) (pathLength equatorDegree)"
    using v(2) by (simp add: pathLength_def equatorDegree_def v(1) dbl_add_def dv)
  have ne': "equatorDegree \<noteq> []" "last equatorDegree = \<lparr>lat = 0, lng = 1\<rparr>"
    by (simp_all add: equatorDegree_def)
  show ?thesis
    using getPositionAlongPath_boundary [of "Fin 3" closePoints]
      getPositionAlongPath_boundary [of "Fin (- 1)" closePoints]
      getPositionAlongPath_boundary [of "Fin 1" closePoints]
      getPositionAlongPath_boundary [of "Fin 100000" equatorDegree] len ne gt ne'
    by simp
qed

section \<open>Properties of the controller\<close>

lemmas parseFloat_simps = parseFloat_def parseUnsigned_def parseExponent_def isWhiteSpace_def
  isDigit_def digitsValue_def digitValue_def pow10_def Let_def

lemma num_gt_irrefl: "\<not> num_gt a a"
  by (cases a) simp_all

lemma num_min_not_gt: "\<not> num_gt (num_min x t) t"
  by (cases x; cases t) (simp_all add: num_gt_irrefl)

lemma addDistance_applied:
  assumes "\<not> isNaN (parseFloat (inputKm s))" "num_gt (parseFloat (inputKm s)) (Fin 0)"
  shows "addDistance s =
     s\<lparr>progress := (progress s)\<lparr>
          currentKm := num_min (num_add (currentKm (progress s)) (parseFloat (inputKm s))) (totalKm (progress s)),
          percentage := num_div (num_min (num_add (currentKm (progress s)) (parseFloat (inputKm s))) (totalKm (progress s)))
                          (totalKm (progress s))\<rparr>,
       inputKm := [], appState := CELEBRATION\<rparr>"
  using assms by (simp add: addDistance_def Let_def)

lemma addDistance_ignored:
  assumes "isNaN (parseFloat (inputKm s)) \<or> \<not> num_gt (parseFloat (inputKm s)) (Fin 0)"
  shows "addDistance s = s"
  using assms by (auto simp add: addDistance_def Let_def)

text \<open>
  C4. A valid add-distance event: when the input parses to a number \<open>a > 0\<close>,
  \<open>addDistance\<close> sets \<open>currentKm\<close> to \<open>Math.min(currentKm + a, totalKm)\<close>, which does not
  exceed \<open>totalKm\<close>, sets \<open>percentage\<close> to the new \<open>currentKm\<close> divided by \<open>totalKm\<close>, and
  sets the phase to CELEBRATION, in every state (the TRACKING states among them). On finite
  values the new \<open>currentKm\<close> is the minimum of \<open>currentKm + a\<close> and \<open>totalKm\<close>.
\<close>

theorem addDistance_valid:
  assumes "parseFloat (inputKm s) = a" and "\<not> isNaN a" and "num_gt a (Fin 0)"
  shows "currentKm (progress (addDistance s))
           = num_min (num_add (currentKm (progress s)) a) (totalKm (progress s))
       \<and> \<not> num_gt (currentKm (progress (addDistance s))) (totalKm (progress (addDistance s)))
       \<and> percentage (progress (addDistance s))
           = num_div (currentKm (progress (addDistance s))) (totalKm (progress (addDistance s)))
       \<and> appState (addDistance s) = CELEBRATION
       \<and> (currentKm (progress s) = Fin c \<and> totalKm (progress s) = Fin t \<and> a = Fin x
            \<longrightarrow> currentKm (progress (addDistance s)) = Fin (min (c + x) t))"
proof -
  from assms have eq: "addDistance s =
     s\<lparr>progress := (progress s)\<lparr>
          currentKm := num_min (num_add (currentKm (progress s)) a) (totalKm (progress s)),
          percentage := num_div (num_min (num_add (currentKm (progress s)) a) (totalKm (progress s)))
                          (totalKm (progress s))\<rparr>,
       inputKm := [], appState := CELEBRATION\<rparr>"
    using addDistance_applied [of s] by simp
  show ?thesis
    unfolding eq by (simp add: num_min_not_gt min_def)
qed

theorem addDistance_valid_witness:
  "parseFloat (inputKm trackingExample) = Fin 5
   \<and> appState trackingExample = TRACKING
   \<and> progress (addDistance trackingExample) = \<lparr>currentKm = Fin 10, totalKm = Fin 10, percentage = Fin 1\<rparr>
   \<and> appState (addDistance trackingExample) = CELEBRATION"
proof -
  have p: "parseFloat (inputKm trackingExample) = Fin 5"
    by (simp add: trackingExample_def parseFloat_simps)
  have "progress trackingExample = \<lparr>currentKm = Fin 8, totalKm = Fin 10, percentage = Fin 0.8\<rparr>"
    by (simp add: trackingExample_def)
  have a: "totalKm (progress (addDistance trackingExample)) = Fin 10"
    using p by (simp add: addDistance_def Let_def trackingExample_def)
  show ?thesis
    using addDistance_valid [OF p, of 8 10 5] p a
    by (simp add: trackingExample_def Progress.equality)
qed

text \<open>
  C7. An invalid add-distance input is a silent no-op: when the input string parses to
  NaN (it is not numeric) or to a number that is not positive, \<open>addDistance\<close> returns
  the state as it was: Progress, the phase and every other field are unchanged.
\<close>

theorem addDistance_invalid_noop:
  assumes "isNaN (parseFloat (inputKm s)) \<or> parseFloat (inputKm s) = NegInf
    \<or> (\<exists>x. x \<le> 0 \<and> parseFloat (inputKm s) = Fin x)"
  shows "addDistance s = s \<and> progress (addDistance s) = progress s \<and> appState (addDistance s) = appState s"
proof -
  from assms have "isNaN (parseFloat (inputKm s)) \<or> \<not> num_gt (parseFloat (inputKm s)) (Fin 0)"
    by auto
  then have "addDistance s = s" by (rule addDistance_ignored)
  then show ?thesis by simp
qed

theorem addDistance_invalid_noop_witness:
  "isNaN (parseFloat (inputKm (setInputKm ''abc'' trackingExample)))
   \<and> addDistance (setInputKm ''abc'' trackingExample) = setInputKm ''abc'' trackingExample
   \<and> parseFloat (inputKm (setInputKm ''-3'' trackingExample)) = Fin (- 3)
   \<and> addDistance (setInputKm ''-3'' trackingExample) = setInputKm ''-3'' trackingExample
   \<and> appState (setInputKm ''-3'' trackingExample) = TRACKING
   \<and> parseFloat (inputKm (setInputKm ''-Infinity'' trackingExample)) = NegInf
   \<and> addDistance (setInputKm ''-Infinity'' trackingExample) = setInputKm ''-Infinity'' trackingExample"
proof -
  have a: "parseFloat (inputKm (setInputKm ''abc'' trackingExample)) = NaN"
    by (simp add: setInputKm_def parseFloat_simps)
  have b: "parseFloat (inputKm (setInputKm ''-3'' trackingExample)) = Fin (- 3)"
    by (simp add: setInputKm_def parseFloat_simps)
  have c: "parseFloat (inputKm (setInputKm ''-Infinity'' trackingExample)) = NegInf"
    by (simp add: setInputKm_def parseFloat_simps)
  show ?thesis
    using addDistance_invalid_noop [of "setInputKm ''abc'' trackingExample"]
      addDistance_invalid_noop [of "setInputKm ''-3'' trackingExample"]
      addDistance_invalid_noop [of "setInputKm ''-Infinity'' trackingExample"] a b c
    by (simp add: setInputKm_def trackingExample_def)
qed

text \<open>
  C10. The frame of \<open>addDistance\<close>: \<open>totalKm\<close> is unchanged by every add-distance event;
  of the Progress record only \<open>currentKm\<close> and \<open>percentage\<close> are written, and the Route
  record is unchanged.
\<close>

theorem addDistance_frame:
  "totalKm (progress (addDistance s)) = totalKm (progress s)
   \<and> (\<exists>c p. progress (addDistance s) = (progress s)\<lparr>currentKm := c, percentage := p\<rparr>)
   \<and> route (addDistance s) = route s"
proof (cases "\<not> isNaN (parseFloat (inputKm s)) \<and> num_gt (parseFloat (inputKm s)) (Fin 0)")
  case True
  then show ?thesis
    using addDistance_applied [of s] by auto
next
  case False
  then have "addDistance s = s"
    using addDistance_ignored [of s] by auto
  moreover have "progress s = (progress s)\<lparr>currentKm := currentKm (progress s), percentage := percentage (progress s)\<rparr>"
    by simp
  ultimately show ?thesis by metis
qed

text \<open>
  C9. The phase guard on route editing: in every phase other than SETUP a map click and
  a marker click leave the Route record (start, end, path, distance) unchanged; they
  leave the whole state unchanged.
\<close>

theorem clicks_ignored_outside_SETUP:
  assumes "appState s \<noteq> SETUP"
  shows "route (handleMapClick latlng s) = route s \<and> route (handleMarkerClick type s) = route s
       \<and> handleMapClick latlng s = s \<and> handleMarkerClick type s = s"
  using assms by (simp add: handleMapClick_def handleMarkerClick_def)

theorem clicks_ignored_outside_SETUP_witness:
  "appState trackingExample \<noteq> SETUP
   \<and> route (handleMapClick \<lparr>lat = 1, lng = 2\<rparr> trackingExample) = route trackingExample
   \<and> route (handleMarkerClick EndMarker trackingExample) = route trackingExample
   \<and> route (handleMarkerClick StartMarker (trackingExample\<lparr>appState := CELEBRATION\<rparr>))
       = route (trackingExample\<lparr>appState := CELEBRATION\<rparr>)"
  using clicks_ignored_outside_SETUP [of trackingExample "\<lparr>lat = 1, lng = 2\<rparr>" EndMarker]
    clicks_ignored_outside_SETUP [of "trackingExample\<lparr>appState := CELEBRATION\<rparr>" "\<lparr>lat = 1, lng = 2\<rparr>" StartMarker]
  by (simp add: trackingExample_def)

text \<open>
  C8, as the claim states it, fails: the initial state already holds a start point, the
  default one, so the first selection on the map sets the end point and leaves the start
  as it is, and the second selection sets nothing.
\<close>

theorem handleMapClick_first_selection_counterexample:
  "start (route (handleMapClick \<lparr>lat = 1, lng = 2\<rparr> initialApp)) \<noteq> Some \<lparr>lat = 1, lng = 2\<rparr>
   \<and> end' (route (handleMapClick \<lparr>lat = 1, lng = 2\<rparr> initialApp)) = Some \<lparr>lat = 1, lng = 2\<rparr>
   \<and> end' (route (handleMapClick \<lparr>lat = 3, lng = 4\<rparr> (handleMapClick \<lparr>lat = 1, lng = 2\<rparr> initialApp)))
        \<noteq> Some \<lparr>lat = 3, lng = 4\<rparr>"
  by (simp add: handleMapClick_def initialApp_def defaultRoute_def defaultStart_def)

text \<open>
  C8 (amended). In the initial state and after a reset \<open>route.start\<close> is the default point;
  from there the first selection on the map sets \<open>route.end\<close> and the second changes
  nothing. In SETUP a selection sets \<open>route.start\<close> when it is unset, and otherwise
  \<open>route.end\<close> when that is unset; a selection made when both are set changes neither.
\<close>

theorem handleMapClick_selection_order:
  "start (route initialApp) = Some defaultStart
   \<and> route (resetRoute s) = route initialApp \<and> appState (resetRoute s) = SETUP
   \<and> route (handleMapClick p initialApp) = (route initialApp)\<lparr>end' := Some p\<rparr>
   \<and> route (handleMapClick p (resetRoute s)) = (route initialApp)\<lparr>end' := Some p\<rparr>
   \<and> handleMapClick q (handleMapClick p initialApp) = handleMapClick p initialApp
   \<and> (appState s = SETUP \<and> start (route s) = None
        \<longrightarrow> route (handleMapClick p s) = (route s)\<lparr>start := Some p\<rparr>)
   \<and> (appState s = SETUP \<and> start (route s) \<noteq> None \<and> end' (route s) = None
        \<longrightarrow> route (handleMapClick p s) = (route s)\<lparr>end' := Some p\<rparr>)
   \<and> (start (route s) \<noteq> None \<and> end' (route s) \<noteq> None \<longrightarrow> handleMapClick p s = s)"
  by (simp add: handleMapClick_def resetRoute_def initialApp_def defaultRoute_def)

theorem handleMapClick_selection_order_witness:
  "appState (handleMarkerClick StartMarker initialApp) = SETUP
   \<and> start (route (handleMarkerClick StartMarker initialApp)) = None
   \<and> start (route (handleMapClick \<lparr>lat = 1, lng = 2\<rparr> (handleMarkerClick StartMarker initialApp)))
        = Some \<lparr>lat = 1, lng = 2\<rparr>
   \<and> appState initialApp = SETUP \<and> start (route initialApp) \<noteq> None \<and> end' (route initialApp) = None
   \<and> end' (route (handleMapClick \<lparr>lat = 1, lng = 2\<rparr> initialApp)) = Some \<lparr>lat = 1, lng = 2\<rparr>
   \<and> start (route (handleMapClick \<lparr>lat = 1, lng = 2\<rparr> initialApp)) \<noteq> None
   \<and> end' (route (handleMapClick \<lparr>lat = 1, lng = 2\<rparr> initialApp)) \<noteq> None
   \<and> handleMapClick \<lparr>lat = 3, lng = 4\<rparr> (handleMapClick \<lparr>lat = 1, lng = 2\<rparr> initialApp)
        = handleMapClick \<lparr>lat = 1, lng = 2\<rparr> initialApp"
  using handleMapClick_selection_order [of "handleMarkerClick StartMarker initialApp" "\<lparr>lat = 1, lng = 2\<rparr>"]
    handleMapClick_selection_order [of initialApp "\<lparr>lat = 1, lng = 2\<rparr>"]
    handleMapClick_selection_order [of "handleMapClick \<lparr>lat = 1, lng = 2\<rparr> initialApp" "\<lparr>lat = 3, lng = 4\<rparr>"]
  by (simp add: handleMarkerClick_def handleMapClick_def initialApp_def defaultRoute_def)

text \<open>
  C5. \<open>fetchRoute\<close> never raises: it returns an error object with the message of the
  error when the request fails, and with the message \<open>No route found\<close> when the code of
  the answer is not \<open>Ok\<close> or the routes are missing or empty; on success it returns the
  coordinates of the first route, as points, and its distance in meters divided by 1000.
  Whatever the service answers, the result is one of these two objects.
\<close>

theorem fetchRoute_never_raises:
  "(service st en = Rejected msg \<longrightarrow> fetchRoute service st en = RouteError msg)
   \<and> (service st en = Responded data \<and> code data \<noteq> ''Ok''
        \<longrightarrow> fetchRoute service st en = RouteError ''No route found'')
   \<and> (service st en = Responded data \<and> (routes data = None \<or> routes data = Some [])
        \<longrightarrow> fetchRoute service st en = RouteError ''No route found'')
   \<and> (service st en = Responded data \<and> code data = ''Ok'' \<and> routes data = Some (r # rs)
        \<and> geometry_coordinates r = Some cs
        \<longrightarrow> fetchRoute service st en
              = RouteOk (map (\<lambda>coord. \<lparr>lat = snd coord, lng = fst coord\<rparr>) cs)
                  (num_div (distance_m r) (Fin 1000))
            \<and> (distance_m r = Fin m \<longrightarrow> distanceOf (fetchRoute service st en) = Fin (m / 1000)))
   \<and> ((\<exists>message. fetchRoute service st en = RouteError message)
        \<or> (\<exists>coordinates d. fetchRoute service st en = RouteOk coordinates d))"
proof (intro conjI impI)
  show "(\<exists>message. fetchRoute service st en = RouteError message)
        \<or> (\<exists>coordinates d. fetchRoute service st en = RouteOk coordinates d)"
    by (cases "fetchRoute service st en") simp_all
qed (auto simp add: fetchRoute_def fetchRouteTry_def)

theorem fetchRoute_never_raises_witness:
  "fetchRoute offlineService defaultStart nearbyClick = RouteError ''Failed to fetch''
   \<and> fetchRoute noRouteService defaultStart nearbyClick = RouteError ''No route found''
   \<and> fetchRoute emptyRoutesService defaultStart nearbyClick = RouteError ''No route found''
   \<and> fetchRoute okService defaultStart nearbyClick
        = RouteOk [\<lparr>lat = 48.2, lng = 13.48\<rparr>, \<lparr>lat = 48.21, lng = 13.49\<rparr>] (Fin 1.5)"
  using fetchRoute_never_raises [of offlineService defaultStart nearbyClick "''Failed to fetch''"]
    fetchRoute_never_raises [of noRouteService defaultStart nearbyClick _ "\<lparr>code = ''NoRoute'', routes = None\<rparr>"]
    fetchRoute_never_raises [of emptyRoutesService defaultStart nearbyClick _ "\<lparr>code = ''Ok'', routes = Some []\<rparr>"]
    fetchRoute_never_raises [of okService defaultStart nearbyClick _
      "\<lparr>code = ''Ok'', routes = Some [\<lparr>geometry_coordinates = Some [(13.48, 48.2), (13.49, 48.21)],
                                distance_m = Fin 1500\<rparr>]\<rparr>"
      "\<lparr>geometry_coordinates = Some [(13.48, 48.2), (13.49, 48.21)], distance_m = Fin 1500\<rparr>" "[]"
      "[(13.48, 48.2), (13.49, 48.21)]" 1500]
  by (simp add: offlineService_def noRouteService_def emptyRoutesService_def okService_def)

subsection \<open>The percentage where the total is positive\<close>

lemma num_div_zero_pos: "num_gt d (Fin 0) \<Longrightarrow> num_div (Fin 0) d = Fin 0"
  by (cases d) simp_all

lemma percentageOfPositiveTotal_initialApp: "percentageOfPositiveTotal initialApp"
  by (simp add: percentageOfPositiveTotal_def initialApp_def defaultProgress_def)

lemma percentageOfPositiveTotal_resetRoute: "percentageOfPositiveTotal (resetRoute s)"
  by (simp add: percentageOfPositiveTotal_def resetRoute_def)

lemma percentageOfPositiveTotal_startJourney:
  "percentageOfPositiveTotal s \<Longrightarrow> percentageOfPositiveTotal (startJourney service s)"
  by (auto simp add: percentageOfPositiveTotal_def startJourney_def Let_def num_div_zero_pos
      split: option.splits)

lemma percentageOfPositiveTotal_addDistance:
  "percentageOfPositiveTotal s \<Longrightarrow> percentageOfPositiveTotal (addDistance s)"
  by (simp add: percentageOfPositiveTotal_def addDistance_def Let_def)

lemma percentageOfPositiveTotal_others:
  "percentageOfPositiveTotal s \<Longrightarrow>
     percentageOfPositiveTotal (handleMapClick p s) \<and> percentageOfPositiveTotal (handleMarkerClick m s)
     \<and> percentageOfPositiveTotal (calculatePreview service s) \<and> percentageOfPositiveTotal (setInputKm v s)
     \<and> percentageOfPositiveTotal (continueTracking s)"
  by (auto simp add: percentageOfPositiveTotal_def handleMapClick_def handleMarkerClick_def
      calculatePreview_def setInputKm_def continueTracking_def Let_def
      split: option.splits MarkerType.splits)

subsection \<open>The guards of startJourney\<close>

text \<open>
  Without both points the journey does not start. When it starts, the total is positive,
  unless it is the distance of a route fetched in \<open>startJourney\<close> itself.
\<close>

lemma startJourney_without_points:
  "start (route s) = None \<or> end' (route s) = None \<Longrightarrow> startJourney service s = s"
  by (auto simp add: startJourney_def split: option.splits)

lemma startJourney_tracking_cases:
  assumes "appState s = SETUP" and "appState (startJourney service s) = TRACKING"
  shows "\<exists>st en. start (route s) = Some st \<and> end' (route s) = Some en
    \<and> (num_gt (totalKm (progress (startJourney service s))) (Fin 0)
        \<or> (\<not> num_gt (distance (route s)) (Fin 0) \<and> \<not> hasError (fetchRoute service st en)
            \<and> totalKm (progress (startJourney service s)) = distanceOf (fetchRoute service st en)))"
proof (cases "start (route s)")
  case None
  with assms show ?thesis by (simp add: startJourney_def)
next
  case st: (Some st)
  show ?thesis
  proof (cases "end' (route s)")
    case None
    with assms st show ?thesis by (simp add: startJourney_def)
  next
    case en: (Some en)
    show ?thesis
      using assms st en
      by (auto simp add: startJourney_def Let_def split: if_splits)
  qed
qed

text \<open>
  C3 does not hold of the code. \<open>startJourney\<close> tests the stored distance and the
  straight-line distance for \<open>> 0\<close>, but not the distance of a route it has just fetched:
  with a service that answers with a route of length 0, the journey starts, in phase
  TRACKING with \<open>totalKm = 0\<close>.
\<close>

theorem startJourney_zero_distance_tracks:
  "startButtonEnabled (calculatePreview snappedService (handleMapClick nearbyClick initialApp))
   \<and> fetchRoute snappedService defaultStart nearbyClick
        = RouteOk [\<lparr>lat = 48.20967, lng = 13.48831\<rparr>, \<lparr>lat = 48.20967, lng = 13.48831\<rparr>] (Fin 0)
   \<and> appState (startJourney snappedService
        (calculatePreview snappedService (handleMapClick nearbyClick initialApp))) = TRACKING
   \<and> totalKm (progress (startJourney snappedService
        (calculatePreview snappedService (handleMapClick nearbyClick initialApp)))) = Fin 0"
  by (simp add: startButtonEnabled_def calculatePreview_def startJourney_def handleMapClick_def
      initialApp_def defaultRoute_def fetchRoute_def fetchRouteTry_def snappedService_def Let_def)

text \<open>
  C2 does not hold of the code. Where \<open>totalKm\<close> is positive the percentage is the
  quotient in every state the operations reach (the lemmas on \<open>percentageOfPositiveTotal\<close>
  above). But \<open>addDistance\<close> divides by \<open>totalKm\<close> without a test: in the TRACKING
  state with \<open>totalKm = 0\<close> that \<open>startJourney\<close> reaches with a fetched route of
  length 0, adding 5 km leaves \<open>currentKm = 0\<close> and sets \<open>percentage\<close> to \<open>0 / 0\<close>,
  which is NaN and not 0.
\<close>

theorem addDistance_zero_total_percentage_NaN:
  "addButtonEnabled (setInputKm ''5'' (startJourney snappedService
        (calculatePreview snappedService (handleMapClick nearbyClick initialApp))))
   \<and> progress (addDistance (setInputKm ''5'' (startJourney snappedService
        (calculatePreview snappedService (handleMapClick nearbyClick initialApp)))))
      = \<lparr>currentKm = Fin 0, totalKm = Fin 0, percentage = NaN\<rparr>"
  by (simp add: addButtonEnabled_def addDistance_def setInputKm_def parseFloat_simps
      calculatePreview_def startJourney_def handleMapClick_def
      initialApp_def defaultRoute_def fetchRoute_def fetchRouteTry_def snappedService_def)

end
